theory Spec2Isabelle
  imports Main "HOL-Library.Sublist"
begin

section \<open>The review command: a wrapper around git\<close>

text \<open>
  A shallow embedding of \<^verbatim>\<open>review.go\<close>. The program is a sequence of calls into
  the operating system (spawning git, reading the working directory, writing the hook
  file) whose results decide what it does next, and it ends either by returning from
  \<^verbatim>\<open>main\<close> or by \<^verbatim>\<open>os.Exit\<close>. The operating system and git are not part of
  the source: they are a parameter of the model, a record of functions over an abstract
  world \<open>'w\<close>. Every result below holds for every such environment.
\<close>

subsection \<open>Errors, results and the environment\<close>

text \<open>
  A Go \<^verbatim>\<open>error\<close> value: the text that \<^verbatim>\<open>%v\<close> prints, and whether
  \<^verbatim>\<open>os.IsNotExist\<close> holds of it.
\<close>

datatype os_error = NotExist string | Failure string

fun IsNotExist :: "os_error \<Rightarrow> bool" where
  "IsNotExist (NotExist m) = True"
| "IsNotExist (Failure m) = False"

fun Error :: "os_error \<Rightarrow> string" where
  "Error (NotExist m) = m"
| "Error (Failure m) = m"

text \<open>
  How a function of the program ends: \<open>Exit c\<close> when it called \<^verbatim>\<open>os.Exit(c)\<close>
  (the process is gone and nothing after it runs), \<open>Ret x\<close> when it returned \<open>x\<close>.
\<close>

datatype 'a res = Exit int | Ret 'a

text \<open>
  What the program takes from outside its source file. \<open>Run\<close> is
  \<^verbatim>\<open>exec.Command(argv...).Run()\<close> with the standard streams inherited,
  \<open>CombinedOutput\<close> is \<^verbatim>\<open>exec.Command(argv...).CombinedOutput()\<close>; an error is
  a non-zero exit status or a failure to start the process. \<open>Quote\<close> is what the
  verb \<^verbatim>\<open>%q\<close> prints for a string, \<open>Separator\<close> is \<^verbatim>\<open>filepath.Separator\<close>, and
  \<open>commitMsgHook\<close> is the hook template, a constant of the repository that is declared
  outside \<^verbatim>\<open>review.go\<close>.
\<close>

record 'w env =
  Getwd :: "'w \<Rightarrow> os_error + string"
  Stat :: "string \<Rightarrow> 'w \<Rightarrow> os_error option"
  Chdir :: "string \<Rightarrow> 'w \<Rightarrow> os_error option \<times> 'w"
  WriteFile :: "string \<Rightarrow> string \<Rightarrow> nat \<Rightarrow> 'w \<Rightarrow> os_error option \<times> 'w"
  Run :: "string list \<Rightarrow> 'w \<Rightarrow> os_error option \<times> 'w"
  CombinedOutput :: "string list \<Rightarrow> 'w \<Rightarrow> (string \<times> os_error option) \<times> 'w"
  Quote :: "string \<Rightarrow> string"
  Separator :: char
  commitMsgHook :: string

text \<open>
  The state of the running process: the world outside, what the program itself has
  written to its standard error and standard output, and two logs kept for the
  statements below: every process spawned, in order, with its command line and whether it
  succeeded, and every file written, with path, content and permission bits.
\<close>

record 'w proc =
  world :: 'w
  stderr :: string
  stdout :: string
  calls :: "(string list \<times> bool) list"
  writes :: "(string \<times> string \<times> nat) list"

type_synonym ('a, 'w) prog = "'w proc \<Rightarrow> 'a res \<times> 'w proc"

definition ret :: "'a \<Rightarrow> ('a, 'w) prog" where
  "ret x s = (Ret x, s)"

text \<open>Sequencing: what follows an \<^verbatim>\<open>os.Exit\<close> does not run.\<close>

definition andThen :: "('a, 'w) prog \<Rightarrow> ('a \<Rightarrow> ('b, 'w) prog) \<Rightarrow> ('b, 'w) prog" where
  "andThen m k s = (case m s of (Exit c, s') \<Rightarrow> (Exit c, s') | (Ret x, s') \<Rightarrow> k x s')"

definition os_Exit :: "int \<Rightarrow> ('a, 'w) prog" where
  "os_Exit c s = (Exit c, s)"

definition Fprint_Stderr :: "string \<Rightarrow> (unit, 'w) prog" where
  "Fprint_Stderr msg s = (Ret (), s\<lparr>stderr := stderr s @ msg\<rparr>)"

definition Fprint_Stdout :: "string \<Rightarrow> (unit, 'w) prog" where
  "Fprint_Stdout msg s = (Ret (), s\<lparr>stdout := stdout s @ msg\<rparr>)"

definition exec_Run :: "'w env \<Rightarrow> string list \<Rightarrow> (os_error option, 'w) prog" where
  "exec_Run E argv s =
     (case Run E argv (world s) of
        (err, w') \<Rightarrow> (Ret err, s\<lparr>world := w', calls := calls s @ [(argv, err = None)]\<rparr>))"

definition exec_CombinedOutput ::
    "'w env \<Rightarrow> string list \<Rightarrow> (string \<times> os_error option, 'w) prog" where
  "exec_CombinedOutput E argv s =
     (case CombinedOutput E argv (world s) of
        ((out, err), w') \<Rightarrow>
          (Ret (out, err), s\<lparr>world := w', calls := calls s @ [(argv, err = None)]\<rparr>))"

definition os_Stat :: "'w env \<Rightarrow> string \<Rightarrow> (os_error option, 'w) prog" where
  "os_Stat E path s = (Ret (Stat E path (world s)), s)"

definition ioutil_WriteFile ::
    "'w env \<Rightarrow> string \<Rightarrow> string \<Rightarrow> nat \<Rightarrow> (os_error option, 'w) prog" where
  "ioutil_WriteFile E path data perm s =
     (case WriteFile E path data perm (world s) of
        (err, w') \<Rightarrow> (Ret err, s\<lparr>world := w', writes := writes s @ [(path, data, perm)]\<rparr>))"

subsection \<open>Strings\<close>

definition nl :: string where
  "nl = ''\<newline>''"

definition tab :: string where
  "tab = [CHR 0x09]"

text \<open>\<^verbatim>\<open>strings.Join(elems, sep)\<close>.\<close>

fun Join :: "string list \<Rightarrow> string \<Rightarrow> string" where
  "Join [] sep = []"
| "Join [x] sep = x"
| "Join (x # y # zs) sep = x @ sep @ Join (y # zs) sep"

text \<open>
  \<^verbatim>\<open>strings.Split(s, sep)\<close> for a separator of one byte: the pieces of \<open>s\<close> between
  the separators, empty pieces included; the result is never the empty list.
\<close>

fun Split :: "string \<Rightarrow> char \<Rightarrow> string list" where
  "Split [] sep = [[]]"
| "Split (c # cs) sep =
     (if c = sep then [] # Split cs sep
      else (case Split cs sep of [] \<Rightarrow> [[c]] | l # ls \<Rightarrow> (c # l) # ls))"

text \<open>\<^verbatim>\<open>filepath.FromSlash\<close>: every slash becomes the separator of the platform.\<close>

definition FromSlash :: "'w env \<Rightarrow> string \<Rightarrow> string" where
  "FromSlash E path =
     (if Separator E = CHR ''/'' then path
      else map (\<lambda>c. if c = CHR ''/'' then Separator E else c) path)"

definition hookFile :: "'w env \<Rightarrow> string" where
  "hookFile E = FromSlash E ''.git/hooks/commit-msg''"

definition usage :: "string \<Rightarrow> string" where
  \<open>usage prog =
     ''Usage: '' @ prog @ '' [-v] <command>\<newline>'' @
     ''Type "'' @ prog @ '' help" for more information.\<newline>''\<close>

text \<open>The constant \<^verbatim>\<open>help\<close> of the source, with the program name filled in.\<close>

definition help_text :: "string \<Rightarrow> string" where
  \<open>help_text prog =
     ''Usage: '' @ prog @ '' [-v] <command>\<newline>'' @
     ''\<newline>'' @
     ''The review command is a wrapper for the git command that provides a simple\<newline>'' @
     ''interface to the "single-commit feature branch" development model.\<newline>'' @
     ''\<newline>'' @
     ''Available comands:\<newline>'' @
     ''\<newline>'' @
     tab @ ''create <name>\<newline>'' @
     tab @ tab @ ''Create a local branch with the provided name\<newline>'' @
     tab @ tab @ ''and commit the staged changes to it.\<newline>'' @
     ''\<newline>'' @
     tab @ ''commit\<newline>'' @
     tab @ tab @ ''Amend local branch HEAD commit with the staged changes.\<newline>'' @
     ''\<newline>'' @
     tab @ ''diff\<newline>'' @
     tab @ tab @ ''View differences between remote branch HEAD and\<newline>'' @
     tab @ tab @ ''the local branch HEAD.\<newline>'' @
     tab @ tab @ ''(The differences introduced by this change.)\<newline>'' @
     ''\<newline>'' @
     tab @ ''upload\<newline>'' @
     tab @ tab @ ''Upload HEAD commit to the code review server.\<newline>'' @
     ''\<newline>'' @
     tab @ ''sync\<newline>'' @
     tab @ tab @ ''Fetch changes from the remote repository and merge them to the\<newline>'' @
     tab @ tab @ ''current branch, rebasing the HEAD commit (if any) on top of\<newline>'' @
     tab @ tab @ ''them.\<newline>'' @
     ''\<newline>'' @
     tab @ ''pending \<newline>'' @
     tab @ tab @ ''Show local branches and their head commits.\<newline>'' @
     ''\<newline>''\<close>

subsection \<open>Printing, dying and running commands\<close>

definition dief :: "string \<Rightarrow> ('a, 'w) prog" where
  "dief msg = andThen (Fprint_Stderr msg) (\<lambda>_. os_Exit 1)"

definition verbosef :: "bool \<Rightarrow> string \<Rightarrow> (unit, 'w) prog" where
  "verbosef verbose msg = (if verbose then Fprint_Stderr msg else ret ())"

definition commandString :: "string \<Rightarrow> string list \<Rightarrow> string" where
  "commandString command args = Join (command # args) '' ''"

definition runErr :: "'w env \<Rightarrow> bool \<Rightarrow> string \<Rightarrow> string list \<Rightarrow> (os_error option, 'w) prog" where
  "runErr E verbose command args =
     andThen (if verbose then Fprint_Stderr (commandString command args @ nl) else ret ())
       (\<lambda>_. exec_Run E (command # args))"

definition run :: "'w env \<Rightarrow> bool \<Rightarrow> string \<Rightarrow> string list \<Rightarrow> (unit, 'w) prog" where
  "run E verbose command args =
     andThen (runErr E verbose command args)
       (\<lambda>err. case err of
          None \<Rightarrow> ret ()
        | Some e \<Rightarrow>
            andThen (if \<not> verbose then Fprint_Stderr (commandString command args @ nl)
                     else ret ())
              (\<lambda>_. dief (Error e @ nl)))"

subsection \<open>Inspecting the repository\<close>

text \<open>
  \<^verbatim>\<open>stagedRe.MatchString\<close> for the expression \<^verbatim>\<open>^[ACDMR]  \<close>: anchored at the
  start of the text, one of the five letters, then two spaces; what follows is free.
\<close>

fun stagedRe :: "string \<Rightarrow> bool" where
  "stagedRe (c # s1 # s2 # rest) = (c \<in> set ''ACDMR'' \<and> s1 = CHR '' '' \<and> s2 = CHR '' '')"
| "stagedRe _ = False"

fun hasStagedChanges_loop :: "string list \<Rightarrow> bool" where
  "hasStagedChanges_loop [] = False"
| "hasStagedChanges_loop (s # ss) = (if stagedRe s then True else hasStagedChanges_loop ss)"

definition hasStagedChanges :: "'w env \<Rightarrow> (bool, 'w) prog" where
  "hasStagedChanges E =
     andThen (exec_CombinedOutput E [''git'', ''status'', ''-s''])
       (\<lambda>(status, err). case err of
          Some e \<Rightarrow> dief (status @ nl @ ''checking for staged changes: '' @ Error e @ nl)
        | None \<Rightarrow> ret (hasStagedChanges_loop (Split status CHR ''\<newline>'')))"

fun isOnMaster_loop :: "string list \<Rightarrow> bool" where
  "isOnMaster_loop [] = False"
| "isOnMaster_loop (s # ss) =
     (if prefix ''* '' s then s = ''* master'' else isOnMaster_loop ss)"

definition isOnMaster :: "'w env \<Rightarrow> (bool, 'w) prog" where
  "isOnMaster E =
     andThen (exec_CombinedOutput E [''git'', ''branch''])
       (\<lambda>(branch, err). case err of
          Some e \<Rightarrow> dief (branch @ nl @ ''checking current branch: '' @ Error e @ nl)
        | None \<Rightarrow> ret (isOnMaster_loop (Split branch CHR ''\<newline>'')))"

subsection \<open>The commands\<close>

definition create :: "'w env \<Rightarrow> bool \<Rightarrow> string \<Rightarrow> (unit, 'w) prog" where
  \<open>create E verbose name =
     andThen (hasStagedChanges E) (\<lambda>staged.
     andThen (if \<not> staged
              then dief (''No staged changes. Did you forget to "git add" your files?'' @ nl)
              else ret ()) (\<lambda>_.
     andThen (isOnMaster E) (\<lambda>onMaster.
     andThen (if \<not> onMaster
              then dief (''You must run create from the master branch. '' @
                         ''("git checkout master".)'' @ nl)
              else ret ()) (\<lambda>_.
     andThen (verbosef verbose
                (''Creating and checking out branch '' @ Quote E name @ ''.'' @ nl)) (\<lambda>_.
     andThen (run E verbose ''git'' [''checkout'', ''-q'', ''-b'', name]) (\<lambda>_.
     andThen (verbosef verbose (''Committing staged changes to branch.'' @ nl)) (\<lambda>_.
     andThen (runErr E verbose ''git'' [''commit'', ''-q'']) (\<lambda>err.
       case err of
         None \<Rightarrow> ret ()
       | Some e \<Rightarrow>
           andThen (verbosef verbose (''Commit failed: '' @ Error e @ nl)) (\<lambda>_.
           andThen (verbosef verbose (''Switching back to master.'' @ nl)) (\<lambda>_.
           andThen (run E verbose ''git'' [''checkout'', ''-q'', ''master'']) (\<lambda>_.
           andThen (verbosef verbose
                      (''Deleting branch '' @ Quote E name @ ''.'' @ nl)) (\<lambda>_.
           run E verbose ''git'' [''branch'', ''-q'', ''-d'', name]))))))))))))\<close>

definition commit :: "'w env \<Rightarrow> bool \<Rightarrow> (unit, 'w) prog" where
  \<open>commit E verbose =
     andThen (hasStagedChanges E) (\<lambda>staged.
     andThen (if \<not> staged
              then dief (''No staged changes. Did you forget to "git add" your files?'' @ nl)
              else ret ()) (\<lambda>_.
     andThen (isOnMaster E) (\<lambda>onMaster.
     andThen (if onMaster then dief (''Can't commit to master branch.'' @ nl) else ret ()) (\<lambda>_.
     andThen (verbosef verbose (''Amending head commit with staged changes.'' @ nl)) (\<lambda>_.
     run E verbose ''git'' [''commit'', ''-q'', ''--amend'', ''-C'', ''HEAD''])))))\<close>

definition diff :: "'w env \<Rightarrow> bool \<Rightarrow> (unit, 'w) prog" where
  "diff E verbose = run E verbose ''git'' [''diff'', ''HEAD^'', ''HEAD'']"

definition upload :: "'w env \<Rightarrow> bool \<Rightarrow> (unit, 'w) prog" where
  "upload E verbose =
     andThen (isOnMaster E) (\<lambda>onMaster.
     andThen (if onMaster then dief (''Can't upload from master branch.'' @ nl) else ret ()) (\<lambda>_.
     andThen (verbosef verbose (''Pushing commit to Gerrit code review server.'' @ nl)) (\<lambda>_.
     run E verbose ''git'' [''push'', ''origin'', ''HEAD:refs/for/master''])))"

definition sync :: "'w env \<Rightarrow> bool \<Rightarrow> (unit, 'w) prog" where
  "sync E verbose =
     andThen (verbosef verbose (''Fetching changes from remote repo.'' @ nl)) (\<lambda>_.
     andThen (run E verbose ''git'' [''fetch'', ''-q'']) (\<lambda>_.
     andThen (isOnMaster E) (\<lambda>onMaster.
       if onMaster then run E verbose ''git'' [''pull'', ''-q'', ''--ff-only'']
       else
         andThen (verbosef verbose (''Rebasing head commit atop origin/master.'' @ nl)) (\<lambda>_.
         run E verbose ''git'' [''rebase'', ''origin/master'']))))"

definition pending :: "(unit, 'w) prog" where
  "pending = dief (''not implemented'' @ nl)"

subsection \<open>Start-up: the repository root and the commit hook\<close>

text \<open>
  The loop of \<^verbatim>\<open>goToRepoRoot\<close>. Nothing in the source bounds it: it ends when the
  environment shows a \<^verbatim>\<open>.git\<close> entry, refuses a call, or reports the same
  directory twice in a row. A run that never ends is the value \<open>None\<close>.
\<close>

partial_function (option) goToRepoRoot_loop ::
    "'w env \<Rightarrow> string \<Rightarrow> 'w proc \<Rightarrow> (unit res \<times> 'w proc) option" where
  "goToRepoRoot_loop E prevDir s =
     (case Stat E ''.git'' (world s) of
        None \<Rightarrow> Some (Ret (), s)
      | Some _ \<Rightarrow>
          (case Chdir E ''..'' (world s) of
             (Some e, w1) \<Rightarrow>
               Some (dief (''could not chdir: '' @ Error e @ nl) (s\<lparr>world := w1\<rparr>))
           | (None, w1) \<Rightarrow>
               (case Getwd E w1 of
                  Inl e \<Rightarrow>
                    Some (dief (''could not get current directory: '' @ Error e @ nl)
                            (s\<lparr>world := w1\<rparr>))
                | Inr currentDir \<Rightarrow>
                    if currentDir = prevDir
                    then Some (dief (''Git root not found. Run from within the Git tree please.''
                                     @ nl) (s\<lparr>world := w1\<rparr>))
                    else goToRepoRoot_loop E currentDir (s\<lparr>world := w1\<rparr>))))"

declare goToRepoRoot_loop.simps [code]

definition goToRepoRoot :: "'w env \<Rightarrow> 'w proc \<Rightarrow> (unit res \<times> 'w proc) option" where
  "goToRepoRoot E s =
     (case Getwd E (world s) of
        Inl e \<Rightarrow> Some (dief (''could not get current directory: '' @ Error e @ nl) s)
      | Inr prevDir \<Rightarrow> goToRepoRoot_loop E prevDir s)"

text \<open>The permission bits \<^verbatim>\<open>0700\<close>, an octal literal: read, write and execute for the owner only.\<close>

definition perm_0700 :: nat where
  "perm_0700 = 7 * 8 ^ 2 + 0 * 8 + 0"

definition installHook :: "'w env \<Rightarrow> bool \<Rightarrow> (unit, 'w) prog" where
  "installHook E verbose =
     andThen (os_Stat E (hookFile E)) (\<lambda>err.
       case err of
         None \<Rightarrow> ret ()
       | Some e \<Rightarrow>
           andThen (if \<not> IsNotExist e
                    then dief (''checking for hook file: '' @ Error e @ nl)
                    else ret ()) (\<lambda>_.
           andThen (verbosef verbose
                      (''Presubmit hook to add Change-Id to commit messages is missing.'' @ nl @
                       ''Automatically creating it at '' @ hookFile E @ ''.'' @ nl)) (\<lambda>_.
           andThen (ioutil_WriteFile E (hookFile E) (commitMsgHook E) perm_0700) (\<lambda>werr.
             case werr of
               Some e' \<Rightarrow> dief (''writing hook file: '' @ Error e' @ nl)
             | None \<Rightarrow> ret ()))))"

subsection \<open>The entry point\<close>

text \<open>
  What \<^verbatim>\<open>flag.Parse\<close> makes of the command line: either it rejects it (it has then
  printed \<open>msg\<close>, empty for \<^verbatim>\<open>-h\<close>, and calls \<^verbatim>\<open>flag.Usage\<close>), or it yields
  the value of \<^verbatim>\<open>-v\<close> and the remaining arguments.
\<close>

datatype flags = FlagError string | Flags bool "string list"

text \<open>\<^verbatim>\<open>flag.Arg(i)\<close>: the empty string when there is no such argument.\<close>

definition Arg :: "string list \<Rightarrow> nat \<Rightarrow> string" where
  "Arg args i = (if i < length args then args ! i else [])"

definition flag_Usage :: "string \<Rightarrow> ('a, 'w) prog" where
  "flag_Usage prog = andThen (Fprint_Stderr (usage prog)) (\<lambda>_. os_Exit 2)"

text \<open>The \<^verbatim>\<open>switch\<close> of \<^verbatim>\<open>main\<close>; the cases are tried in the order of the source.\<close>

definition dispatch :: "'w env \<Rightarrow> string \<Rightarrow> bool \<Rightarrow> string list \<Rightarrow> (unit, 'w) prog" where
  "dispatch E prog verbose args =
     (let cmd = Arg args 0 in
      if cmd = ''help'' then Fprint_Stdout (help_text prog)
      else if cmd = ''create'' \<or> cmd = ''cr'' then
        (let name = Arg args 1 in
         andThen (if name = [] then flag_Usage prog else ret ()) (\<lambda>_. create E verbose name))
      else if cmd = ''commit'' \<or> cmd = ''co'' then commit E verbose
      else if cmd = ''diff'' \<or> cmd = ''d'' then diff E verbose
      else if cmd = ''upload'' \<or> cmd = ''u'' then upload E verbose
      else if cmd = ''sync'' \<or> cmd = ''s'' then sync E verbose
      else if cmd = ''pending'' \<or> cmd = ''p'' then pending
      else flag_Usage prog)"

definition main :: "'w env \<Rightarrow> string \<Rightarrow> flags \<Rightarrow> 'w proc \<Rightarrow> (unit res \<times> 'w proc) option" where
  "main E prog fl s =
     (case fl of
        FlagError msg \<Rightarrow> Some (andThen (Fprint_Stderr msg) (\<lambda>_. flag_Usage prog) s)
      | Flags verbose args \<Rightarrow>
          (case goToRepoRoot E s of
             None \<Rightarrow> None
           | Some (Exit c, s1) \<Rightarrow> Some (Exit c, s1)
           | Some (Ret _, s1) \<Rightarrow>
               Some (andThen (installHook E verbose) (\<lambda>_. dispatch E prog verbose args) s1)))"

text \<open>The exit status of the process: that of \<^verbatim>\<open>os.Exit\<close>, or 0 when \<^verbatim>\<open>main\<close> returns.\<close>

fun exit_status :: "unit res \<Rightarrow> int" where
  "exit_status (Exit c) = c"
| "exit_status (Ret _) = 0"

subsection \<open>A small simulated repository\<close>

text \<open>
  One concrete environment, used to run the program on explicit inputs: a directory
  tree with at most one work tree, a hook file, a list of branches with one checked out,
  an index that is either empty or holds staged changes, and a list of command lines
  that fail when they are spawned.
\<close>

record sim =
  dir :: "string list"
  tree :: "string list option"
  hook :: "string option"
  hook_denied :: bool
  current :: string
  branches :: "string list"
  staged :: bool
  broken :: "string list list"

definition sim_Stat :: "string \<Rightarrow> sim \<Rightarrow> os_error option" where
  "sim_Stat path w =
     (if path = ''.git'' then
        (if tree w = Some (dir w) then None
         else Some (NotExist ''stat .git: no such file or directory''))
      else if path = ''.git/hooks/commit-msg'' then
        (if hook_denied w then Some (Failure ''stat .git/hooks/commit-msg: permission denied'')
         else if hook w = None
         then Some (NotExist ''stat .git/hooks/commit-msg: no such file or directory'')
         else None)
      else Some (NotExist ''no such file or directory''))"

definition sim_Chdir :: "string \<Rightarrow> sim \<Rightarrow> os_error option \<times> sim" where
  "sim_Chdir d w =
     (if d = ''..'' then (None, w\<lparr>dir := butlast (dir w)\<rparr>)
      else (Some (Failure ''chdir: no such file or directory''), w))"

definition sim_WriteFile :: "string \<Rightarrow> string \<Rightarrow> nat \<Rightarrow> sim \<Rightarrow> os_error option \<times> sim" where
  "sim_WriteFile path data perm w =
     (if path = ''.git/hooks/commit-msg'' then (None, w\<lparr>hook := Some data\<rparr>)
      else (Some (Failure ''open: permission denied''), w))"

definition sim_Run :: "string list \<Rightarrow> sim \<Rightarrow> os_error option \<times> sim" where
  "sim_Run argv w =
     (if argv \<in> set (broken w) then (Some (Failure ''exit status 1''), w)
      else if length argv = 5 \<and> take 4 argv = [''git'', ''checkout'', ''-q'', ''-b''] then
        (if argv ! 4 \<in> set (branches w) then (Some (Failure ''exit status 128''), w)
         else (None, w\<lparr>current := argv ! 4, branches := branches w @ [argv ! 4]\<rparr>))
      else if length argv = 4 \<and> take 3 argv = [''git'', ''checkout'', ''-q''] then
        (if argv ! 3 \<in> set (branches w) then (None, w\<lparr>current := argv ! 3\<rparr>)
         else (Some (Failure ''exit status 1''), w))
      else if length argv = 5 \<and> take 4 argv = [''git'', ''branch'', ''-q'', ''-d''] then
        (if argv ! 4 \<in> set (branches w) \<and> argv ! 4 \<noteq> current w
         then (None, w\<lparr>branches := removeAll (argv ! 4) (branches w)\<rparr>)
         else (Some (Failure ''exit status 1''), w))
      else if argv = [''git'', ''commit'', ''-q'']
            \<or> argv = [''git'', ''commit'', ''-q'', ''--amend'', ''-C'', ''HEAD''] then
        (if staged w then (None, w\<lparr>staged := False\<rparr>)
         else (Some (Failure ''exit status 1''), w))
      else (None, w))"

definition sim_CombinedOutput :: "string list \<Rightarrow> sim \<Rightarrow> (string \<times> os_error option) \<times> sim" where
  "sim_CombinedOutput argv w =
     (if argv \<in> set (broken w)
      then ((''fatal: index file corrupt'' @ nl, Some (Failure ''exit status 128'')), w)
      else if argv = [''git'', ''status'', ''-s''] then
        ((if staged w then ''M  review.go'' @ nl else [], None), w)
      else if argv = [''git'', ''branch''] then
        ((concat (map (\<lambda>b. (if b = current w then ''* '' else ''  '') @ b @ nl) (branches w)),
          None), w)
      else (([], None), w))"

definition sim_env :: "sim env" where
  "sim_env =
     \<lparr>Getwd = (\<lambda>w. Inr (CHR ''/'' # Join (dir w) ''/'')),
      Stat = sim_Stat,
      Chdir = sim_Chdir,
      WriteFile = sim_WriteFile,
      Run = sim_Run,
      CombinedOutput = sim_CombinedOutput,
      Quote = (\<lambda>s. [CHR 0x22] @ s @ [CHR 0x22]),
      Separator = CHR ''/'',
      commitMsgHook = ''#!/bin/sh'' @ nl\<rparr>"

text \<open>A process that has not yet written or spawned anything.\<close>

definition start :: "'w \<Rightarrow> 'w proc" where
  "start w = \<lparr>world = w, stderr = [], stdout = [], calls = [], writes = []\<rparr>"

text \<open>
  A work tree at \<^verbatim>\<open>/home/review\<close> with the hook installed, on master, with staged
  changes and nothing broken.
\<close>

definition repo0 :: sim where
  "repo0 =
     \<lparr>dir = [''home'', ''review''], tree = Some [''home'', ''review''],
      hook = Some (''#!/bin/sh'' @ nl), hook_denied = False,
      current = ''master'', branches = [''master''], staged = True, broken = []\<rparr>"

text \<open>The same repository with a commit that fails.\<close>

definition repo_commit_fails :: sim where
  "repo_commit_fails = repo0\<lparr>broken := [[''git'', ''commit'', ''-q'']]\<rparr>"

text \<open>The same repository where the commit and the checkout of master both fail.\<close>

definition repo_rollback_fails :: sim where
  "repo_rollback_fails =
     repo0\<lparr>broken := [[''git'', ''commit'', ''-q''], [''git'', ''checkout'', ''-q'', ''master'']]\<rparr>"

text \<open>The repository as the checkout of a new branch leaves it.\<close>

definition on_new_branch :: "string \<Rightarrow> sim \<Rightarrow> sim" where
  "on_new_branch name w = w\<lparr>current := name, branches := branches w @ [name]\<rparr>"

text \<open>A directory \<^verbatim>\<open>/tmp\<close> outside every work tree.\<close>

definition outside_tree :: sim where
  "outside_tree = repo0\<lparr>dir := [''tmp''], tree := None\<rparr>"

text \<open>A work tree whose hook directory cannot be read.\<close>

definition hook_unreadable :: sim where
  "hook_unreadable = repo0\<lparr>hook := None, hook_denied := True\<rparr>"

text \<open>A work tree with no hook file yet.\<close>

definition no_hook :: sim where
  "no_hook = repo0\<lparr>hook := None\<rparr>"

text \<open>A detached head: no line of the branch listing carries the marker.\<close>

definition detached :: sim where
  "detached = repo0\<lparr>current := ''(no branch)''\<rparr>"

text \<open>A feature branch with staged changes.\<close>

definition on_feature :: sim where
  "on_feature = repo0\<lparr>current := ''feat'', branches := [''master'', ''feat'']\<rparr>"

text \<open>Master with nothing staged.\<close>

definition nothing_staged :: sim where
  "nothing_staged = repo0\<lparr>staged := False\<rparr>"

text \<open>A repository whose status query fails.\<close>

definition status_fails :: sim where
  "status_fails = repo0\<lparr>broken := [[''git'', ''status'', ''-s'']]\<rparr>"

text \<open>
  The simulated environment, except that the short status lists the staged file with
  three spaces after the status letter.
\<close>

definition three_spaces_env :: "sim env" where
  "three_spaces_env =
     sim_env\<lparr>CombinedOutput :=
       (\<lambda>argv w. if argv = [''git'', ''status'', ''-s'']
                 then ((''M   review.go'' @ nl, None), w)
                 else sim_CombinedOutput argv w)\<rparr>"

subsection \<open>Vocabulary of the statements\<close>


section \<open>Properties\<close>

subsection \<open>Splitting and joining\<close>

lemma Split_not_Nil: "Split s sep \<noteq> []"
  by (induction s) (auto split: list.splits)

lemma Split_no_sep: "l \<in> set (Split s sep) \<Longrightarrow> sep \<notin> set l"
proof (induction s arbitrary: l)
  case Nil
  then show ?case by simp
next
  case (Cons c cs)
  then show ?case
    by (cases "Split cs sep") (auto split: if_splits)
qed

lemma Join_Cons: "ls \<noteq> [] \<Longrightarrow> Join (l # ls) sep = l @ sep @ Join ls sep"
  by (cases ls) simp_all

text \<open>
  Joining the pieces with the separator gives the text back, so the pieces are the
  lines of the text and no byte of it is lost.
\<close>

lemma Join_Split: "Join (Split s sep) [sep] = s"
proof (induction s)
  case Nil
  then show ?case by simp
next
  case (Cons c cs)
  show ?case
  proof (cases "c = sep")
    case True
    then show ?thesis using Cons by (simp add: Join_Cons Split_not_Nil)
  next
    case False
    obtain l ls where sp: "Split cs sep = l # ls"
      using Split_not_Nil [of cs sep] by (cases "Split cs sep") auto
    have "Join ((c # l) # ls) [sep] = c # Join (l # ls) [sep]"
      by (cases ls) simp_all
    then show ?thesis using Cons False sp by simp
  qed
qed

subsection \<open>The two loops over lines\<close>

lemma stagedRe_iff:
  "stagedRe l = (\<exists>c\<in>set ''ACDMR''. \<exists>rest. l = c # CHR '' '' # CHR '' '' # rest)"
  by (cases l rule: stagedRe.cases) auto

lemma hasStagedChanges_loop_iff: "hasStagedChanges_loop ls = (\<exists>l\<in>set ls. stagedRe l)"
  by (induction ls) auto

lemma isOnMaster_loop_find:
  "isOnMaster_loop ls =
     (case find (prefix ''* '') ls of None \<Rightarrow> False | Some l \<Rightarrow> l = ''* master'')"
  by (induction ls) auto

subsection \<open>One step at a time\<close>

lemmas prims = andThen_def ret_def os_Exit_def Fprint_Stderr_def Fprint_Stdout_def
  exec_Run_def exec_CombinedOutput_def dief_def verbosef_def runErr_def run_def
  hasStagedChanges_def isOnMaster_def

lemmas sim_simps = sim_env_def sim_Stat_def sim_Chdir_def sim_WriteFile_def sim_Run_def
  sim_CombinedOutput_def start_def repo0_def nl_def repo_commit_fails_def
  repo_rollback_fails_def on_new_branch_def outside_tree_def hook_unreadable_def no_hook_def
  detached_def on_feature_def nothing_staged_def status_fails_def

lemma dief_eq: "dief msg s = (Exit 1, s\<lparr>stderr := stderr s @ msg\<rparr>)"
  by (simp add: dief_def andThen_def Fprint_Stderr_def os_Exit_def)

lemma verbosef_eq:
  "verbosef v msg s = (Ret (), s\<lparr>stderr := stderr s @ (if v then msg else [])\<rparr>)"
  by (simp add: verbosef_def Fprint_Stderr_def ret_def)

lemma hasStagedChanges_ok:
  assumes "CombinedOutput E [''git'', ''status'', ''-s''] (world s) = ((status, None), w')"
  shows "hasStagedChanges E s =
           (Ret (hasStagedChanges_loop (Split status CHR ''\<newline>'')),
            s\<lparr>world := w', calls := calls s @ [([''git'', ''status'', ''-s''], True)]\<rparr>)"
  using assms by (simp add: hasStagedChanges_def andThen_def exec_CombinedOutput_def ret_def)


lemma isOnMaster_ok:
  assumes "CombinedOutput E [''git'', ''branch''] (world s) = ((branch, None), w')"
  shows "isOnMaster E s =
           (Ret (isOnMaster_loop (Split branch CHR ''\<newline>'')),
            s\<lparr>world := w', calls := calls s @ [([''git'', ''branch''], True)]\<rparr>)"
  using assms by (simp add: isOnMaster_def andThen_def exec_CombinedOutput_def ret_def)

lemma isOnMaster_fail:
  assumes "CombinedOutput E [''git'', ''branch''] (world s) = ((branch, Some e), w')"
  shows "isOnMaster E s =
           (Exit 1,
            s\<lparr>world := w', calls := calls s @ [([''git'', ''branch''], False)],
              stderr := stderr s @ branch @ nl @ ''checking current branch: ''
                          @ Error e @ nl\<rparr>)"
  using assms by (simp add: isOnMaster_def andThen_def exec_CombinedOutput_def dief_eq)

lemma runErr_eq:
  assumes "Run E (c # args) (world s) = (err, w')"
  shows "runErr E v c args s =
           (Ret err,
            s\<lparr>world := w', calls := calls s @ [(c # args, err = None)],
              stderr := stderr s @ (if v then commandString c args @ nl else [])\<rparr>)"
  using assms
  by (simp add: runErr_def andThen_def exec_Run_def Fprint_Stderr_def ret_def)

lemma run_ok:
  assumes "Run E (c # args) (world s) = (None, w')"
  shows "run E v c args s =
           (Ret (),
            s\<lparr>world := w', calls := calls s @ [(c # args, True)],
              stderr := stderr s @ (if v then commandString c args @ nl else [])\<rparr>)"
  using runErr_eq [OF assms, of v]
  by (simp add: run_def andThen_def ret_def)

lemma run_fail:
  assumes "Run E (c # args) (world s) = (Some e, w')"
  shows "run E v c args s =
           (Exit 1,
            s\<lparr>world := w', calls := calls s @ [(c # args, False)],
              stderr := stderr s @ commandString c args @ nl @ Error e @ nl\<rparr>)"
  using runErr_eq [OF assms, of v]
  by (simp add: run_def andThen_def ret_def dief_eq Fprint_Stderr_def)

subsection \<open>Reading the repository\<close>

text \<open>
  C4, as the code has it. Whatever the short status prints, \<^verbatim>\<open>hasStagedChanges\<close>
  answers true exactly when one of its lines begins with one of the letters A, C, D, M, R
  followed by two spaces. The expression is anchored at the start of the line and does
  not look at what follows these three bytes: a third space, or anything else, may come
  next. A line with one space after the letter, with two status letters, or with a
  leading space is not a staged change.
\<close>

theorem hasStagedChanges_iff_staged_line:
  assumes "CombinedOutput E [''git'', ''status'', ''-s''] (world s) = ((status, None), w')"
  shows "hasStagedChanges E s =
           (Ret (\<exists>l\<in>set (Split status CHR ''\<newline>'').
                   \<exists>c\<in>set ''ACDMR''. \<exists>rest. l = c # CHR '' '' # CHR '' '' # rest),
            s\<lparr>world := w', calls := calls s @ [([''git'', ''status'', ''-s''], True)]\<rparr>)
       \<and> (\<forall>l. stagedRe l
              = (\<exists>c\<in>set ''ACDMR''. \<exists>rest. l = c # CHR '' '' # CHR '' '' # rest))
       \<and> (\<forall>c\<in>set ''ACDMR''. \<forall>rest. stagedRe (c # CHR '' '' # CHR '' '' # rest))
       \<and> \<not> stagedRe ''M review.go'' \<and> \<not> stagedRe ''MM review.go''
       \<and> \<not> stagedRe '' M review.go'' \<and> \<not> stagedRe ''?? review.go''"
proof -
  have "hasStagedChanges E s =
           (Ret (\<exists>l\<in>set (Split status CHR ''\<newline>'').
                   \<exists>c\<in>set ''ACDMR''. \<exists>rest. l = c # CHR '' '' # CHR '' '' # rest),
            s\<lparr>world := w', calls := calls s @ [([''git'', ''status'', ''-s''], True)]\<rparr>)"
    using hasStagedChanges_ok [OF assms]
    by (simp only: hasStagedChanges_loop_iff stagedRe_iff)
  moreover have "\<forall>l. stagedRe l
              = (\<exists>c\<in>set ''ACDMR''. \<exists>rest. l = c # CHR '' '' # CHR '' '' # rest)"
    using stagedRe_iff by blast
  moreover have "\<forall>c\<in>set ''ACDMR''. \<forall>rest. stagedRe (c # CHR '' '' # CHR '' '' # rest)"
    by simp
  ultimately show ?thesis by simp
qed

theorem hasStagedChanges_iff_staged_line_witness:
  "CombinedOutput sim_env [''git'', ''status'', ''-s''] (world (start repo0))
     = ((''M  review.go\<newline>'', None), repo0)
   \<and> fst (hasStagedChanges sim_env (start repo0)) = Ret True
   \<and> CombinedOutput sim_env [''git'', ''status'', ''-s''] (world (start nothing_staged))
     = (([], None), nothing_staged)
   \<and> fst (hasStagedChanges sim_env (start nothing_staged)) = Ret False
   \<and> stagedRe ''M  review.go''"
proof -
  have h: "CombinedOutput sim_env [''git'', ''status'', ''-s''] (world (start repo0))
             = ((''M  review.go\<newline>'', None), repo0)"
    by (simp add: sim_simps)
  have k: "CombinedOutput sim_env [''git'', ''status'', ''-s''] (world (start nothing_staged))
             = (([], None), nothing_staged)"
    by (simp add: sim_simps)
  have m: "CHR ''M'' \<in> set ''ACDMR''"
    by simp
  have "stagedRe (CHR ''M'' # CHR '' '' # CHR '' '' # ''review.go'')"
    using hasStagedChanges_iff_staged_line [OF h] m by blast
  then have r: "stagedRe ''M  review.go''"
    by simp
  have a: "fst (hasStagedChanges sim_env (start repo0)) = Ret True"
    using hasStagedChanges_iff_staged_line [OF h] by simp
  have b: "fst (hasStagedChanges sim_env (start nothing_staged)) = Ret False"
    using hasStagedChanges_iff_staged_line [OF k] by simp
  show ?thesis
    using h k a b r by simp
qed

text \<open>
  A short status whose line has three spaces after the status letter: the line is
  counted as a staged change.
\<close>

theorem staged_line_three_spaces:
  "CombinedOutput three_spaces_env [''git'', ''status'', ''-s''] repo0
     = ((''M   review.go\<newline>'', None), repo0)
   \<and> take 4 ''M   review.go'' = [CHR ''M'', CHR '' '', CHR '' '', CHR '' '']
   \<and> hasStagedChanges three_spaces_env (start repo0)
       = (Ret True, (start repo0)\<lparr>calls := [([''git'', ''status'', ''-s''], True)]\<rparr>)"
  by code_simp

text \<open>
  C5. Whatever the branch listing prints, \<^verbatim>\<open>isOnMaster\<close> looks at the first line
  that begins with the marker \<^verbatim>\<open>"* "\<close> and answers true exactly when that line is
  \<^verbatim>\<open>"* master"\<close>. When no line carries the marker it answers false; it does not
  fail.
\<close>

theorem isOnMaster_iff_current_line:
  assumes "CombinedOutput E [''git'', ''branch''] (world s) = ((branch, None), w')"
  shows "isOnMaster E s =
           (Ret (case find (prefix ''* '') (Split branch CHR ''\<newline>'') of
                   None \<Rightarrow> False
                 | Some l \<Rightarrow> l = ''* master''),
            s\<lparr>world := w', calls := calls s @ [([''git'', ''branch''], True)]\<rparr>)
       \<and> ((\<forall>l\<in>set (Split branch CHR ''\<newline>''). \<not> prefix ''* '' l)
            \<longrightarrow> fst (isOnMaster E s) = Ret False)"
proof -
  have eq: "isOnMaster E s =
           (Ret (case find (prefix ''* '') (Split branch CHR ''\<newline>'') of
                   None \<Rightarrow> False
                 | Some l \<Rightarrow> l = ''* master''),
            s\<lparr>world := w', calls := calls s @ [([''git'', ''branch''], True)]\<rparr>)"
    using isOnMaster_ok [OF assms] by (simp only: isOnMaster_loop_find)
  have "find (prefix ''* '') (Split branch CHR ''\<newline>'') = None"
    if "\<forall>l\<in>set (Split branch CHR ''\<newline>''). \<not> prefix ''* '' l"
    using that by (simp add: find_None_iff)
  then show ?thesis using eq by simp
qed

theorem isOnMaster_iff_current_line_witness:
  "fst (isOnMaster sim_env (start repo0)) = Ret True
   \<and> fst (isOnMaster sim_env (start on_feature)) = Ret False
   \<and> CombinedOutput sim_env [''git'', ''branch''] (world (start detached))
       = ((''  master\<newline>'', None), detached)
   \<and> fst (isOnMaster sim_env (start detached)) = Ret False"
proof -
  have h: "CombinedOutput sim_env [''git'', ''branch''] (world (start repo0))
             = ((''* master\<newline>'', None), repo0)"
    by (simp add: sim_simps)
  have k: "CombinedOutput sim_env [''git'', ''branch''] (world (start on_feature))
             = ((''  master\<newline>* feat\<newline>'', None), on_feature)"
    by (simp add: sim_simps)
  have d: "CombinedOutput sim_env [''git'', ''branch''] (world (start detached))
             = ((''  master\<newline>'', None), detached)"
    by (simp add: sim_simps)
  have n: "\<forall>l\<in>set (Split ''  master\<newline>'' CHR ''\<newline>''). \<not> prefix ''* '' l"
    by simp
  show ?thesis
    using n d isOnMaster_iff_current_line [OF h] isOnMaster_iff_current_line [OF k]
      isOnMaster_iff_current_line [OF d]
    by simp
qed

subsection \<open>The rollback of create\<close>

text \<open>
  What \<^verbatim>\<open>create\<close> does once the commit has failed, for either outcome of each
  compensating step.
\<close>

lemma create_after_failed_commit:
  assumes "CombinedOutput E [''git'', ''status'', ''-s''] (world s) = ((status, None), w1)"
    and "hasStagedChanges_loop (Split status CHR ''\<newline>'')"
    and "CombinedOutput E [''git'', ''branch''] w1 = ((branch, None), w2)"
    and "isOnMaster_loop (Split branch CHR ''\<newline>'')"
    and "Run E [''git'', ''checkout'', ''-q'', ''-b'', name] w2 = (None, w3)"
    and "Run E [''git'', ''commit'', ''-q''] w3 = (Some e, w4)"
  shows "(\<forall>e' w5.
            Run E [''git'', ''checkout'', ''-q'', ''master''] w4 = (Some e', w5)
            \<longrightarrow> fst (create E v name s) = Exit 1
              \<and> calls (snd (create E v name s)) =
                  calls s @ [([''git'', ''status'', ''-s''], True),
                             ([''git'', ''branch''], True),
                             ([''git'', ''checkout'', ''-q'', ''-b'', name], True),
                             ([''git'', ''commit'', ''-q''], False),
                             ([''git'', ''checkout'', ''-q'', ''master''], False)]
              \<and> world (snd (create E v name s)) = w5)
       \<and> (\<forall>w5 r w6.
            Run E [''git'', ''checkout'', ''-q'', ''master''] w4 = (None, w5)
            \<and> Run E [''git'', ''branch'', ''-q'', ''-d'', name] w5 = (r, w6)
            \<longrightarrow> fst (create E v name s) = (if r = None then Ret () else Exit 1)
              \<and> calls (snd (create E v name s)) =
                  calls s @ [([''git'', ''status'', ''-s''], True),
                             ([''git'', ''branch''], True),
                             ([''git'', ''checkout'', ''-q'', ''-b'', name], True),
                             ([''git'', ''commit'', ''-q''], False),
                             ([''git'', ''checkout'', ''-q'', ''master''], True),
                             ([''git'', ''branch'', ''-q'', ''-d'', name], r = None)]
              \<and> world (snd (create E v name s)) = w6)"
proof -
  have stop: "fst (create E v name s) = Exit 1
              \<and> calls (snd (create E v name s)) =
                  calls s @ [([''git'', ''status'', ''-s''], True),
                             ([''git'', ''branch''], True),
                             ([''git'', ''checkout'', ''-q'', ''-b'', name], True),
                             ([''git'', ''commit'', ''-q''], False),
                             ([''git'', ''checkout'', ''-q'', ''master''], False)]
              \<and> world (snd (create E v name s)) = w5"
    if "Run E [''git'', ''checkout'', ''-q'', ''master''] w4 = (Some e', w5)" for e' w5
    using assms that
    by (simp add: create_def andThen_def hasStagedChanges_ok isOnMaster_ok ret_def
        verbosef_eq run_ok run_fail runErr_eq)
  have del: "fst (create E v name s) = (if r = None then Ret () else Exit 1)
              \<and> calls (snd (create E v name s)) =
                  calls s @ [([''git'', ''status'', ''-s''], True),
                             ([''git'', ''branch''], True),
                             ([''git'', ''checkout'', ''-q'', ''-b'', name], True),
                             ([''git'', ''commit'', ''-q''], False),
                             ([''git'', ''checkout'', ''-q'', ''master''], True),
                             ([''git'', ''branch'', ''-q'', ''-d'', name], r = None)]
              \<and> world (snd (create E v name s)) = w6"
    if "Run E [''git'', ''checkout'', ''-q'', ''master''] w4 = (None, w5)"
      and "Run E [''git'', ''branch'', ''-q'', ''-d'', name] w5 = (r, w6)"
    for w5 r w6
    using assms that
    by (cases r)
      (simp_all add: create_def andThen_def hasStagedChanges_ok isOnMaster_ok ret_def
        verbosef_eq run_ok run_fail runErr_eq)
  show ?thesis
    using stop del by blast
qed

text \<open>
  C10. In \<^verbatim>\<open>create\<close>, when the commit has failed and the checkout of master that
  starts the rollback fails too, the process exits with status 1 at that point: the
  checkout of master is the last process spawned and the new branch is not deleted.
\<close>

theorem create_rollback_stops:
  assumes "CombinedOutput E [''git'', ''status'', ''-s''] (world s) = ((status, None), w1)"
    and "hasStagedChanges_loop (Split status CHR ''\<newline>'')"
    and "CombinedOutput E [''git'', ''branch''] w1 = ((branch, None), w2)"
    and "isOnMaster_loop (Split branch CHR ''\<newline>'')"
    and "Run E [''git'', ''checkout'', ''-q'', ''-b'', name] w2 = (None, w3)"
    and "Run E [''git'', ''commit'', ''-q''] w3 = (Some e, w4)"
    and "Run E [''git'', ''checkout'', ''-q'', ''master''] w4 = (Some e', w5)"
  shows "fst (create E v name s) = Exit 1
       \<and> world (snd (create E v name s)) = w5
       \<and> calls (snd (create E v name s)) =
           calls s @ [([''git'', ''status'', ''-s''], True),
                      ([''git'', ''branch''], True),
                      ([''git'', ''checkout'', ''-q'', ''-b'', name], True),
                      ([''git'', ''commit'', ''-q''], False),
                      ([''git'', ''checkout'', ''-q'', ''master''], False)]
       \<and> [''git'', ''branch'', ''-q'', ''-d'', name]
            \<notin> set (map fst (drop (length (calls s)) (calls (snd (create E v name s)))))"
  using assms
  by (simp add: create_def andThen_def hasStagedChanges_ok isOnMaster_ok ret_def
      verbosef_eq run_ok run_fail runErr_eq)

theorem create_rollback_stops_witness:
  "fst (create sim_env True ''feat'' (start repo_rollback_fails)) = Exit 1
   \<and> world (snd (create sim_env True ''feat'' (start repo_rollback_fails)))
       = on_new_branch ''feat'' repo_rollback_fails
   \<and> calls (snd (create sim_env True ''feat'' (start repo_rollback_fails))) =
        [([''git'', ''status'', ''-s''], True),
         ([''git'', ''branch''], True),
         ([''git'', ''checkout'', ''-q'', ''-b'', ''feat''], True),
         ([''git'', ''commit'', ''-q''], False),
         ([''git'', ''checkout'', ''-q'', ''master''], False)]"
proof -
  let ?w = repo_rollback_fails
  let ?w' = "on_new_branch ''feat'' repo_rollback_fails"
  have h1: "CombinedOutput sim_env [''git'', ''status'', ''-s''] (world (start ?w))
              = ((''M  review.go\<newline>'', None), ?w)"
    by (simp add: sim_simps)
  have h2: "hasStagedChanges_loop (Split ''M  review.go\<newline>'' CHR ''\<newline>'')"
    by simp
  have h3: "CombinedOutput sim_env [''git'', ''branch''] ?w = ((''* master\<newline>'', None), ?w)"
    by (simp add: sim_simps)
  have h4: "isOnMaster_loop (Split ''* master\<newline>'' CHR ''\<newline>'')"
    by simp
  have h5: "Run sim_env [''git'', ''checkout'', ''-q'', ''-b'', ''feat''] ?w = (None, ?w')"
    by (simp add: sim_simps)
  have h6: "Run sim_env [''git'', ''commit'', ''-q''] ?w' = (Some (Failure ''exit status 1''), ?w')"
    by (simp add: sim_simps)
  have h7: "Run sim_env [''git'', ''checkout'', ''-q'', ''master''] ?w'
              = (Some (Failure ''exit status 1''), ?w')"
    by (simp add: sim_simps)
  show ?thesis
    using create_rollback_stops [OF h1 h2 h3 h4 h5 h6 h7, of True]
    by (simp add: start_def)
qed

text \<open>
  C1, as the code has it. In \<^verbatim>\<open>create\<close>, when there are staged changes, the
  current branch is master, the new branch is checked out and the commit fails, the
  program spawns the checkout of master; when that succeeds it spawns the deletion of
  the new branch; and when that succeeds too, \<^verbatim>\<open>create\<close> returns and the repository
  is as these two commands leave it. For a git whose successful checkout of master makes
  master the current branch and whose successful deletion removes the branch and keeps
  the current one, master is then current and the new branch is gone. A compensating
  step that fails ends the process with status 1 at that step: after a failed checkout
  of master the deletion is not spawned, and a failed deletion is the last process
  spawned.
\<close>

theorem create_rollback_restores:
  assumes "CombinedOutput E [''git'', ''status'', ''-s''] (world s) = ((status, None), w1)"
    and "hasStagedChanges_loop (Split status CHR ''\<newline>'')"
    and "CombinedOutput E [''git'', ''branch''] w1 = ((branch, None), w2)"
    and "isOnMaster_loop (Split branch CHR ''\<newline>'')"
    and "Run E [''git'', ''checkout'', ''-q'', ''-b'', name] w2 = (None, w3)"
    and "Run E [''git'', ''commit'', ''-q''] w3 = (Some e, w4)"
  shows "(\<forall>w5 w6.
            Run E [''git'', ''checkout'', ''-q'', ''master''] w4 = (None, w5)
            \<and> Run E [''git'', ''branch'', ''-q'', ''-d'', name] w5 = (None, w6)
            \<longrightarrow> fst (create E v name s) = Ret ()
              \<and> calls (snd (create E v name s)) =
                  calls s @ [([''git'', ''status'', ''-s''], True),
                             ([''git'', ''branch''], True),
                             ([''git'', ''checkout'', ''-q'', ''-b'', name], True),
                             ([''git'', ''commit'', ''-q''], False),
                             ([''git'', ''checkout'', ''-q'', ''master''], True),
                             ([''git'', ''branch'', ''-q'', ''-d'', name], True)]
              \<and> world (snd (create E v name s)) = w6
              \<and> ((\<forall>w w'. Run E [''git'', ''checkout'', ''-q'', ''master''] w = (None, w')
                            \<longrightarrow> cur w' = ''master'')
                  \<and> (\<forall>w w'. Run E [''git'', ''branch'', ''-q'', ''-d'', name] w = (None, w')
                            \<longrightarrow> cur w' = cur w \<and> name \<notin> set (brs w'))
                  \<longrightarrow> cur (world (snd (create E v name s))) = ''master''
                    \<and> name \<notin> set (brs (world (snd (create E v name s))))))
       \<and> (\<forall>e' w5.
            Run E [''git'', ''checkout'', ''-q'', ''master''] w4 = (Some e', w5)
            \<longrightarrow> fst (create E v name s) = Exit 1
              \<and> calls (snd (create E v name s)) =
                  calls s @ [([''git'', ''status'', ''-s''], True),
                             ([''git'', ''branch''], True),
                             ([''git'', ''checkout'', ''-q'', ''-b'', name], True),
                             ([''git'', ''commit'', ''-q''], False),
                             ([''git'', ''checkout'', ''-q'', ''master''], False)]
              \<and> world (snd (create E v name s)) = w5)
       \<and> (\<forall>w5 e' w6.
            Run E [''git'', ''checkout'', ''-q'', ''master''] w4 = (None, w5)
            \<and> Run E [''git'', ''branch'', ''-q'', ''-d'', name] w5 = (Some e', w6)
            \<longrightarrow> fst (create E v name s) = Exit 1
              \<and> calls (snd (create E v name s)) =
                  calls s @ [([''git'', ''status'', ''-s''], True),
                             ([''git'', ''branch''], True),
                             ([''git'', ''checkout'', ''-q'', ''-b'', name], True),
                             ([''git'', ''commit'', ''-q''], False),
                             ([''git'', ''checkout'', ''-q'', ''master''], True),
                             ([''git'', ''branch'', ''-q'', ''-d'', name], False)]
              \<and> world (snd (create E v name s)) = w6)"
proof -
  note after = create_after_failed_commit [OF assms, of v]
  have ok: "fst (create E v name s) = Ret ()
              \<and> calls (snd (create E v name s)) =
                  calls s @ [([''git'', ''status'', ''-s''], True),
                             ([''git'', ''branch''], True),
                             ([''git'', ''checkout'', ''-q'', ''-b'', name], True),
                             ([''git'', ''commit'', ''-q''], False),
                             ([''git'', ''checkout'', ''-q'', ''master''], True),
                             ([''git'', ''branch'', ''-q'', ''-d'', name], True)]
              \<and> world (snd (create E v name s)) = w6
              \<and> ((\<forall>w w'. Run E [''git'', ''checkout'', ''-q'', ''master''] w = (None, w')
                            \<longrightarrow> cur w' = ''master'')
                  \<and> (\<forall>w w'. Run E [''git'', ''branch'', ''-q'', ''-d'', name] w = (None, w')
                            \<longrightarrow> cur w' = cur w \<and> name \<notin> set (brs w'))
                  \<longrightarrow> cur (world (snd (create E v name s))) = ''master''
                    \<and> name \<notin> set (brs (world (snd (create E v name s)))))"
    if c: "Run E [''git'', ''checkout'', ''-q'', ''master''] w4 = (None, w5)"
      and d: "Run E [''git'', ''branch'', ''-q'', ''-d'', name] w5 = (None, w6)"
    for w5 w6
  proof -
    have run: "fst (create E v name s) = (if (None :: os_error option) = None then Ret () else Exit 1)
              \<and> calls (snd (create E v name s)) =
                  calls s @ [([''git'', ''status'', ''-s''], True),
                             ([''git'', ''branch''], True),
                             ([''git'', ''checkout'', ''-q'', ''-b'', name], True),
                             ([''git'', ''commit'', ''-q''], False),
                             ([''git'', ''checkout'', ''-q'', ''master''], True),
                             ([''git'', ''branch'', ''-q'', ''-d'', name],
                              (None :: os_error option) = None)]
              \<and> world (snd (create E v name s)) = w6"
      using after c d by blast
    have "cur w6 = ''master'' \<and> name \<notin> set (brs w6)"
      if "\<forall>w w'. Run E [''git'', ''checkout'', ''-q'', ''master''] w = (None, w')
                            \<longrightarrow> cur w' = ''master''"
        and "\<forall>w w'. Run E [''git'', ''branch'', ''-q'', ''-d'', name] w = (None, w')
                            \<longrightarrow> cur w' = cur w \<and> name \<notin> set (brs w')"
    proof -
      have "cur w5 = ''master''" using that(1) c by blast
      then show ?thesis using that(2) d by metis
    qed
    then show ?thesis using run by simp
  qed
  have stop: "fst (create E v name s) = Exit 1
              \<and> calls (snd (create E v name s)) =
                  calls s @ [([''git'', ''status'', ''-s''], True),
                             ([''git'', ''branch''], True),
                             ([''git'', ''checkout'', ''-q'', ''-b'', name], True),
                             ([''git'', ''commit'', ''-q''], False),
                             ([''git'', ''checkout'', ''-q'', ''master''], False)]
              \<and> world (snd (create E v name s)) = w5"
    if "Run E [''git'', ''checkout'', ''-q'', ''master''] w4 = (Some e', w5)" for e' w5
    using after that by blast
  have del: "fst (create E v name s) = Exit 1
              \<and> calls (snd (create E v name s)) =
                  calls s @ [([''git'', ''status'', ''-s''], True),
                             ([''git'', ''branch''], True),
                             ([''git'', ''checkout'', ''-q'', ''-b'', name], True),
                             ([''git'', ''commit'', ''-q''], False),
                             ([''git'', ''checkout'', ''-q'', ''master''], True),
                             ([''git'', ''branch'', ''-q'', ''-d'', name], False)]
              \<and> world (snd (create E v name s)) = w6"
    if c: "Run E [''git'', ''checkout'', ''-q'', ''master''] w4 = (None, w5)"
      and d: "Run E [''git'', ''branch'', ''-q'', ''-d'', name] w5 = (Some e', w6)"
    for w5 e' w6
  proof -
    have "fst (create E v name s) = (if Some e' = None then Ret () else Exit 1)
              \<and> calls (snd (create E v name s)) =
                  calls s @ [([''git'', ''status'', ''-s''], True),
                             ([''git'', ''branch''], True),
                             ([''git'', ''checkout'', ''-q'', ''-b'', name], True),
                             ([''git'', ''commit'', ''-q''], False),
                             ([''git'', ''checkout'', ''-q'', ''master''], True),
                             ([''git'', ''branch'', ''-q'', ''-d'', name], Some e' = None)]
              \<and> world (snd (create E v name s)) = w6"
      using after c d by blast
    then show ?thesis by simp
  qed
  show ?thesis
    using ok stop del by blast
qed

theorem create_rollback_restores_witness:
  "fst (create sim_env False ''feat'' (start repo_commit_fails)) = Ret ()
   \<and> calls (snd (create sim_env False ''feat'' (start repo_commit_fails))) =
        [([''git'', ''status'', ''-s''], True),
         ([''git'', ''branch''], True),
         ([''git'', ''checkout'', ''-q'', ''-b'', ''feat''], True),
         ([''git'', ''commit'', ''-q''], False),
         ([''git'', ''checkout'', ''-q'', ''master''], True),
         ([''git'', ''branch'', ''-q'', ''-d'', ''feat''], True)]
   \<and> current (world (snd (create sim_env False ''feat'' (start repo_commit_fails)))) = ''master''
   \<and> ''feat'' \<notin> set (branches (world (snd (create sim_env False ''feat''
                                                (start repo_commit_fails)))))
   \<and> fst (create sim_env False ''feat'' (start repo_rollback_fails)) = Exit 1
   \<and> world (snd (create sim_env False ''feat'' (start repo_rollback_fails)))
       = on_new_branch ''feat'' repo_rollback_fails
   \<and> fst (create sim_env False ''feat''
            (start (repo0\<lparr>broken := [[''git'', ''commit'', ''-q''],
                                     [''git'', ''branch'', ''-q'', ''-d'', ''feat'']]\<rparr>))) = Exit 1
   \<and> calls (snd (create sim_env False ''feat''
            (start (repo0\<lparr>broken := [[''git'', ''commit'', ''-q''],
                                     [''git'', ''branch'', ''-q'', ''-d'', ''feat'']]\<rparr>)))) =
        [([''git'', ''status'', ''-s''], True),
         ([''git'', ''branch''], True),
         ([''git'', ''checkout'', ''-q'', ''-b'', ''feat''], True),
         ([''git'', ''commit'', ''-q''], False),
         ([''git'', ''checkout'', ''-q'', ''master''], True),
         ([''git'', ''branch'', ''-q'', ''-d'', ''feat''], False)]"
proof -
  let ?w = repo_commit_fails
  let ?w' = "on_new_branch ''feat'' repo_commit_fails"
  let ?x = repo_rollback_fails
  let ?x' = "on_new_branch ''feat'' repo_rollback_fails"
  let ?y = "repo0\<lparr>broken := [[''git'', ''commit'', ''-q''],
                             [''git'', ''branch'', ''-q'', ''-d'', ''feat'']]\<rparr>"
  let ?y' = "on_new_branch ''feat'' ?y"
  have st: "hasStagedChanges_loop (Split ''M  review.go\<newline>'' CHR ''\<newline>'')"
    by simp
  have om: "isOnMaster_loop (Split ''* master\<newline>'' CHR ''\<newline>'')"
    by simp
  have h1: "CombinedOutput sim_env [''git'', ''status'', ''-s''] (world (start ?w))
              = ((''M  review.go\<newline>'', None), ?w)"
    by (simp add: sim_simps)
  have h3: "CombinedOutput sim_env [''git'', ''branch''] ?w = ((''* master\<newline>'', None), ?w)"
    by (simp add: sim_simps)
  have h5: "Run sim_env [''git'', ''checkout'', ''-q'', ''-b'', ''feat''] ?w = (None, ?w')"
    by (simp add: sim_simps)
  have h6: "Run sim_env [''git'', ''commit'', ''-q''] ?w' = (Some (Failure ''exit status 1''), ?w')"
    by (simp add: sim_simps)
  have h7: "Run sim_env [''git'', ''checkout'', ''-q'', ''master''] ?w'
              = (None, ?w'\<lparr>current := ''master''\<rparr>)
            \<and> Run sim_env [''git'', ''branch'', ''-q'', ''-d'', ''feat'']
                (?w'\<lparr>current := ''master''\<rparr>) = (None, ?w)"
    by (simp add: sim_simps)
  have c: "(\<forall>w w'. Run sim_env [''git'', ''checkout'', ''-q'', ''master''] w = (None, w')
             \<longrightarrow> current w' = ''master'')
         \<and> (\<forall>w w'. Run sim_env [''git'', ''branch'', ''-q'', ''-d'', ''feat''] w = (None, w')
             \<longrightarrow> current w' = current w \<and> ''feat'' \<notin> set (branches w'))"
    by (auto simp: sim_env_def sim_Run_def split: if_splits)
  have a: "fst (create sim_env False ''feat'' (start ?w)) = Ret ()
       \<and> calls (snd (create sim_env False ''feat'' (start ?w))) =
           calls (start ?w) @ [([''git'', ''status'', ''-s''], True),
                      ([''git'', ''branch''], True),
                      ([''git'', ''checkout'', ''-q'', ''-b'', ''feat''], True),
                      ([''git'', ''commit'', ''-q''], False),
                      ([''git'', ''checkout'', ''-q'', ''master''], True),
                      ([''git'', ''branch'', ''-q'', ''-d'', ''feat''], True)]
       \<and> world (snd (create sim_env False ''feat'' (start ?w))) = ?w
       \<and> current (world (snd (create sim_env False ''feat'' (start ?w)))) = ''master''
       \<and> ''feat'' \<notin> set (branches (world (snd (create sim_env False ''feat'' (start ?w)))))"
    using create_rollback_restores [where cur = current and brs = branches and v = False,
        OF h1 st h3 om h5 h6] h7 c
    by blast
  have k1: "CombinedOutput sim_env [''git'', ''status'', ''-s''] (world (start ?x))
              = ((''M  review.go\<newline>'', None), ?x)"
    by (simp add: sim_simps)
  have k3: "CombinedOutput sim_env [''git'', ''branch''] ?x = ((''* master\<newline>'', None), ?x)"
    by (simp add: sim_simps)
  have k5: "Run sim_env [''git'', ''checkout'', ''-q'', ''-b'', ''feat''] ?x = (None, ?x')"
    by (simp add: sim_simps)
  have k6: "Run sim_env [''git'', ''commit'', ''-q''] ?x' = (Some (Failure ''exit status 1''), ?x')"
    by (simp add: sim_simps)
  have k7: "Run sim_env [''git'', ''checkout'', ''-q'', ''master''] ?x'
              = (Some (Failure ''exit status 1''), ?x')"
    by (simp add: sim_simps)
  have b: "fst (create sim_env False ''feat'' (start ?x)) = Exit 1
           \<and> world (snd (create sim_env False ''feat'' (start ?x))) = ?x'"
    using create_rollback_restores [where cur = current and brs = branches and v = False,
        OF k1 st k3 om k5 k6] k7
    by blast
  have m1: "CombinedOutput sim_env [''git'', ''status'', ''-s''] (world (start ?y))
              = ((''M  review.go\<newline>'', None), ?y)"
    by (simp add: sim_simps)
  have m3: "CombinedOutput sim_env [''git'', ''branch''] ?y = ((''* master\<newline>'', None), ?y)"
    by (simp add: sim_simps)
  have m5: "Run sim_env [''git'', ''checkout'', ''-q'', ''-b'', ''feat''] ?y = (None, ?y')"
    by (simp add: sim_simps)
  have m6: "Run sim_env [''git'', ''commit'', ''-q''] ?y' = (Some (Failure ''exit status 1''), ?y')"
    by (simp add: sim_simps)
  have m7: "Run sim_env [''git'', ''checkout'', ''-q'', ''master''] ?y'
              = (None, ?y'\<lparr>current := ''master''\<rparr>)
            \<and> Run sim_env [''git'', ''branch'', ''-q'', ''-d'', ''feat'']
                (?y'\<lparr>current := ''master''\<rparr>)
              = (Some (Failure ''exit status 1''), ?y'\<lparr>current := ''master''\<rparr>)"
    by (simp add: sim_simps)
  have d: "fst (create sim_env False ''feat'' (start ?y)) = Exit 1
       \<and> calls (snd (create sim_env False ''feat'' (start ?y))) =
           calls (start ?y) @ [([''git'', ''status'', ''-s''], True),
                      ([''git'', ''branch''], True),
                      ([''git'', ''checkout'', ''-q'', ''-b'', ''feat''], True),
                      ([''git'', ''commit'', ''-q''], False),
                      ([''git'', ''checkout'', ''-q'', ''master''], True),
                      ([''git'', ''branch'', ''-q'', ''-d'', ''feat''], False)]"
    using create_rollback_restores [where cur = current and brs = branches and v = False,
        OF m1 st m3 om m5 m6] m7
    by blast
  have cs: "calls (start ?w) = [] \<and> calls (start ?y) = []"
    by (simp add: start_def)
  show ?thesis
    using a b d cs by (simp add: repo_commit_fails_def repo0_def)
qed

text \<open>
  A run in which the rollback itself fails: there are staged changes, master is checked
  out, the commit fails and so does the checkout of master. The process exits with
  status 1 there, the deletion is never spawned, and the repository is left on the new
  branch, which still exists.
\<close>

theorem create_rollback_counterexample:
  "staged repo_rollback_fails \<and> current repo_rollback_fails = ''master''
   \<and> fst (create sim_env False ''feat'' (start repo_rollback_fails)) = Exit 1
   \<and> calls (snd (create sim_env False ''feat'' (start repo_rollback_fails))) =
        [([''git'', ''status'', ''-s''], True),
         ([''git'', ''branch''], True),
         ([''git'', ''checkout'', ''-q'', ''-b'', ''feat''], True),
         ([''git'', ''commit'', ''-q''], False),
         ([''git'', ''checkout'', ''-q'', ''master''], False)]
   \<and> current (world (snd (create sim_env False ''feat'' (start repo_rollback_fails)))) = ''feat''
   \<and> branches (world (snd (create sim_env False ''feat'' (start repo_rollback_fails))))
        = [''master'', ''feat'']"
  by (simp add: create_def prims sim_simps)

subsection \<open>Preconditions\<close>

text \<open>
  C2. A command whose precondition does not hold ends the process with status 1 after
  printing a message that names the violation, and spawns nothing but the queries that
  found it out: \<^verbatim>\<open>create\<close> and \<^verbatim>\<open>commit\<close> without staged changes,
  \<^verbatim>\<open>create\<close> away from master, \<^verbatim>\<open>commit\<close> and \<^verbatim>\<open>upload\<close> on master. No
  checkout, commit or push is spawned, before the check or after it.
\<close>

theorem precondition_violation_fatal:
  \<open>(\<forall>status w1.
       CombinedOutput E [''git'', ''status'', ''-s''] (world s) = ((status, None), w1)
       \<and> \<not> hasStagedChanges_loop (Split status CHR ''\<newline>'')
       \<longrightarrow> create E v name s =
             (Exit 1,
              s\<lparr>world := w1, calls := calls s @ [([''git'', ''status'', ''-s''], True)],
                stderr := stderr s
                  @ ''No staged changes. Did you forget to "git add" your files?\<newline>''\<rparr>)
         \<and> commit E v s =
             (Exit 1,
              s\<lparr>world := w1, calls := calls s @ [([''git'', ''status'', ''-s''], True)],
                stderr := stderr s
                  @ ''No staged changes. Did you forget to "git add" your files?\<newline>''\<rparr>))
   \<and> (\<forall>status w1 branch w2.
       CombinedOutput E [''git'', ''status'', ''-s''] (world s) = ((status, None), w1)
       \<and> hasStagedChanges_loop (Split status CHR ''\<newline>'')
       \<and> CombinedOutput E [''git'', ''branch''] w1 = ((branch, None), w2)
       \<longrightarrow> (\<not> isOnMaster_loop (Split branch CHR ''\<newline>'')
            \<longrightarrow> create E v name s =
                (Exit 1,
                 s\<lparr>world := w2,
                   calls := calls s @ [([''git'', ''status'', ''-s''], True),
                                       ([''git'', ''branch''], True)],
                   stderr := stderr s
                     @ ''You must run create from the master branch. ''
                     @ ''("git checkout master".)\<newline>''\<rparr>))
         \<and> (isOnMaster_loop (Split branch CHR ''\<newline>'')
            \<longrightarrow> commit E v s =
                (Exit 1,
                 s\<lparr>world := w2,
                   calls := calls s @ [([''git'', ''status'', ''-s''], True),
                                       ([''git'', ''branch''], True)],
                   stderr := stderr s @ ''Can't commit to master branch.\<newline>''\<rparr>)))
   \<and> (\<forall>branch w1.
       CombinedOutput E [''git'', ''branch''] (world s) = ((branch, None), w1)
       \<and> isOnMaster_loop (Split branch CHR ''\<newline>'')
       \<longrightarrow> upload E v s =
             (Exit 1,
              s\<lparr>world := w1, calls := calls s @ [([''git'', ''branch''], True)],
                stderr := stderr s @ ''Can't upload from master branch.\<newline>''\<rparr>))\<close>
  by (auto simp: create_def commit_def upload_def andThen_def hasStagedChanges_ok
      isOnMaster_ok dief_eq ret_def nl_def)

theorem precondition_violation_fatal_witness:
  \<open>create sim_env False ''feat'' (start nothing_staged) =
     (Exit 1,
      (start nothing_staged)
        \<lparr>calls := [([''git'', ''status'', ''-s''], True)],
         stderr := ''No staged changes. Did you forget to "git add" your files?\<newline>''\<rparr>)
   \<and> commit sim_env False (start nothing_staged) =
     (Exit 1,
      (start nothing_staged)
        \<lparr>calls := [([''git'', ''status'', ''-s''], True)],
         stderr := ''No staged changes. Did you forget to "git add" your files?\<newline>''\<rparr>)
   \<and> create sim_env False ''feat'' (start on_feature) =
     (Exit 1,
      (start on_feature)
        \<lparr>calls := [([''git'', ''status'', ''-s''], True), ([''git'', ''branch''], True)],
         stderr := ''You must run create from the master branch. ''
                   @ ''("git checkout master".)\<newline>''\<rparr>)
   \<and> commit sim_env False (start repo0) =
     (Exit 1,
      (start repo0)
        \<lparr>calls := [([''git'', ''status'', ''-s''], True), ([''git'', ''branch''], True)],
         stderr := ''Can't commit to master branch.\<newline>''\<rparr>)
   \<and> upload sim_env False (start repo0) =
     (Exit 1,
      (start repo0)
        \<lparr>calls := [([''git'', ''branch''], True)],
         stderr := ''Can't upload from master branch.\<newline>''\<rparr>)\<close>
proof -
  have n: "CombinedOutput sim_env [''git'', ''status'', ''-s''] (world (start nothing_staged))
             = (([], None), nothing_staged)"
    by (simp add: sim_simps)
  have n': "\<not> hasStagedChanges_loop (Split [] CHR ''\<newline>'')"
    by simp
  have f: "CombinedOutput sim_env [''git'', ''status'', ''-s''] (world (start on_feature))
             = ((''M  review.go\<newline>'', None), on_feature)"
    by (simp add: sim_simps)
  have st: "hasStagedChanges_loop (Split ''M  review.go\<newline>'' CHR ''\<newline>'')"
    by simp
  have fb: "CombinedOutput sim_env [''git'', ''branch''] on_feature
             = ((''  master\<newline>* feat\<newline>'', None), on_feature)"
    by (simp add: sim_simps)
  have fb': "\<not> isOnMaster_loop (Split ''  master\<newline>* feat\<newline>'' CHR ''\<newline>'')"
    by simp
  have m: "CombinedOutput sim_env [''git'', ''status'', ''-s''] (world (start repo0))
             = ((''M  review.go\<newline>'', None), repo0)"
    by (simp add: sim_simps)
  have mb: "CombinedOutput sim_env [''git'', ''branch''] repo0
             = ((''* master\<newline>'', None), repo0)"
    by (simp add: sim_simps)
  have mb0: "CombinedOutput sim_env [''git'', ''branch''] (world (start repo0))
             = ((''* master\<newline>'', None), repo0)"
    by (simp add: sim_simps)
  have mb': "isOnMaster_loop (Split ''* master\<newline>'' CHR ''\<newline>'')"
    by simp
  note t1 = precondition_violation_fatal [where E = sim_env and v = False and name = "''feat''"
      and s = "start nothing_staged"]
  note t2 = precondition_violation_fatal [where E = sim_env and v = False and name = "''feat''"
      and s = "start on_feature"]
  note t3 = precondition_violation_fatal [where E = sim_env and v = False and name = "''feat''"
      and s = "start repo0"]
  have a: \<open>create sim_env False ''feat'' (start nothing_staged) =
     (Exit 1,
      (start nothing_staged)
        \<lparr>calls := [([''git'', ''status'', ''-s''], True)],
         stderr := ''No staged changes. Did you forget to "git add" your files?\<newline>''\<rparr>)
   \<and> commit sim_env False (start nothing_staged) =
     (Exit 1,
      (start nothing_staged)
        \<lparr>calls := [([''git'', ''status'', ''-s''], True)],
         stderr := ''No staged changes. Did you forget to "git add" your files?\<newline>''\<rparr>)\<close>
    using t1 n n' by (simp add: start_def)
  have b: \<open>create sim_env False ''feat'' (start on_feature) =
     (Exit 1,
      (start on_feature)
        \<lparr>calls := [([''git'', ''status'', ''-s''], True), ([''git'', ''branch''], True)],
         stderr := ''You must run create from the master branch. ''
                   @ ''("git checkout master".)\<newline>''\<rparr>)\<close>
    using t2 f st fb fb' by (simp add: start_def)
  have c: "commit sim_env False (start repo0) =
     (Exit 1,
      (start repo0)
        \<lparr>calls := [([''git'', ''status'', ''-s''], True), ([''git'', ''branch''], True)],
         stderr := ''Can't commit to master branch.\<newline>''\<rparr>)"
    using t3 m st mb mb' by (simp add: start_def)
  have d: "upload sim_env False (start repo0) =
     (Exit 1,
      (start repo0)
        \<lparr>calls := [([''git'', ''branch''], True)],
         stderr := ''Can't upload from master branch.\<newline>''\<rparr>)"
    using t3 mb0 mb' by (simp add: start_def)
  show ?thesis using a b c d by simp
qed

subsection \<open>Synchronising\<close>

text \<open>
  C6. \<^verbatim>\<open>sync\<close> always spawns the fetch first. When the fetch fails the process
  ends there. When it succeeds the branch is queried: on master the only further
  command is the fast-forward-only pull, and no rebase is spawned; on any other branch
  the only further command is the rebase onto origin/master, and no pull is spawned.
\<close>

theorem sync_fetch_then_pull_or_rebase:
  "take (Suc (length (calls s))) (calls (snd (sync E v s)))
     = calls s @ [([''git'', ''fetch'', ''-q''],
                   fst (Run E [''git'', ''fetch'', ''-q''] (world s)) = None)]
   \<and> (\<forall>e w1.
        Run E [''git'', ''fetch'', ''-q''] (world s) = (Some e, w1)
        \<longrightarrow> fst (sync E v s) = Exit 1
          \<and> calls (snd (sync E v s)) = calls s @ [([''git'', ''fetch'', ''-q''], False)])
   \<and> (\<forall>w1 branch e w2.
        Run E [''git'', ''fetch'', ''-q''] (world s) = (None, w1)
        \<and> CombinedOutput E [''git'', ''branch''] w1 = ((branch, Some e), w2)
        \<longrightarrow> fst (sync E v s) = Exit 1
          \<and> calls (snd (sync E v s)) =
              calls s @ [([''git'', ''fetch'', ''-q''], True), ([''git'', ''branch''], False)])
   \<and> (\<forall>w1 branch w2 r w3.
        Run E [''git'', ''fetch'', ''-q''] (world s) = (None, w1)
        \<and> CombinedOutput E [''git'', ''branch''] w1 = ((branch, None), w2)
        \<and> isOnMaster_loop (Split branch CHR ''\<newline>'')
        \<and> Run E [''git'', ''pull'', ''-q'', ''--ff-only''] w2 = (r, w3)
        \<longrightarrow> calls (snd (sync E v s)) =
              calls s @ [([''git'', ''fetch'', ''-q''], True), ([''git'', ''branch''], True),
                         ([''git'', ''pull'', ''-q'', ''--ff-only''], r = None)]
          \<and> fst (sync E v s) = (if r = None then Ret () else Exit 1)
          \<and> world (snd (sync E v s)) = w3)
   \<and> (\<forall>w1 branch w2 r w3.
        Run E [''git'', ''fetch'', ''-q''] (world s) = (None, w1)
        \<and> CombinedOutput E [''git'', ''branch''] w1 = ((branch, None), w2)
        \<and> \<not> isOnMaster_loop (Split branch CHR ''\<newline>'')
        \<and> Run E [''git'', ''rebase'', ''origin/master''] w2 = (r, w3)
        \<longrightarrow> calls (snd (sync E v s)) =
              calls s @ [([''git'', ''fetch'', ''-q''], True), ([''git'', ''branch''], True),
                         ([''git'', ''rebase'', ''origin/master''], r = None)]
          \<and> fst (sync E v s) = (if r = None then Ret () else Exit 1)
          \<and> world (snd (sync E v s)) = w3)"
proof -
  have first: "take (Suc (length (calls s))) (calls (snd (sync E v s)))
     = calls s @ [([''git'', ''fetch'', ''-q''],
                   fst (Run E [''git'', ''fetch'', ''-q''] (world s)) = None)]"
    by (auto simp: sync_def prims split: prod.splits option.splits if_splits)
  have fetch: "fst (sync E v s) = Exit 1
          \<and> calls (snd (sync E v s)) = calls s @ [([''git'', ''fetch'', ''-q''], False)]"
    if "Run E [''git'', ''fetch'', ''-q''] (world s) = (Some e, w1)" for e w1
    using that by (simp add: sync_def andThen_def verbosef_eq run_fail)
  have query: "fst (sync E v s) = Exit 1
          \<and> calls (snd (sync E v s)) =
              calls s @ [([''git'', ''fetch'', ''-q''], True), ([''git'', ''branch''], False)]"
    if "Run E [''git'', ''fetch'', ''-q''] (world s) = (None, w1)"
      and "CombinedOutput E [''git'', ''branch''] w1 = ((branch, Some e), w2)"
    for w1 branch e w2
    using that by (simp add: sync_def andThen_def verbosef_eq run_ok isOnMaster_fail)
  have pull: "calls (snd (sync E v s)) =
              calls s @ [([''git'', ''fetch'', ''-q''], True), ([''git'', ''branch''], True),
                         ([''git'', ''pull'', ''-q'', ''--ff-only''], r = None)]
          \<and> fst (sync E v s) = (if r = None then Ret () else Exit 1)
          \<and> world (snd (sync E v s)) = w3"
    if "Run E [''git'', ''fetch'', ''-q''] (world s) = (None, w1)"
      and "CombinedOutput E [''git'', ''branch''] w1 = ((branch, None), w2)"
      and "isOnMaster_loop (Split branch CHR ''\<newline>'')"
      and "Run E [''git'', ''pull'', ''-q'', ''--ff-only''] w2 = (r, w3)"
    for w1 branch w2 r w3
    using that
    by (cases r) (simp_all add: sync_def andThen_def verbosef_eq run_ok run_fail isOnMaster_ok)
  have rebase: "calls (snd (sync E v s)) =
              calls s @ [([''git'', ''fetch'', ''-q''], True), ([''git'', ''branch''], True),
                         ([''git'', ''rebase'', ''origin/master''], r = None)]
          \<and> fst (sync E v s) = (if r = None then Ret () else Exit 1)
          \<and> world (snd (sync E v s)) = w3"
    if "Run E [''git'', ''fetch'', ''-q''] (world s) = (None, w1)"
      and "CombinedOutput E [''git'', ''branch''] w1 = ((branch, None), w2)"
      and "\<not> isOnMaster_loop (Split branch CHR ''\<newline>'')"
      and "Run E [''git'', ''rebase'', ''origin/master''] w2 = (r, w3)"
    for w1 branch w2 r w3
    using that
    by (cases r) (simp_all add: sync_def andThen_def verbosef_eq run_ok run_fail isOnMaster_ok)
  show ?thesis
    using first fetch query pull rebase by blast
qed

theorem sync_fetch_then_pull_or_rebase_witness:
  "calls (snd (sync sim_env False (start repo0))) =
     [([''git'', ''fetch'', ''-q''], True), ([''git'', ''branch''], True),
      ([''git'', ''pull'', ''-q'', ''--ff-only''], True)]
   \<and> fst (sync sim_env False (start repo0)) = Ret ()
   \<and> calls (snd (sync sim_env False (start on_feature))) =
     [([''git'', ''fetch'', ''-q''], True), ([''git'', ''branch''], True),
      ([''git'', ''rebase'', ''origin/master''], True)]
   \<and> fst (sync sim_env False (start on_feature)) = Ret ()
   \<and> calls (snd (sync sim_env False (start (repo0\<lparr>broken := [[''git'', ''fetch'', ''-q'']]\<rparr>))))
       = [([''git'', ''fetch'', ''-q''], False)]
   \<and> calls (snd (sync sim_env False (start (repo0\<lparr>broken := [[''git'', ''branch'']]\<rparr>))))
       = [([''git'', ''fetch'', ''-q''], True), ([''git'', ''branch''], False)]"
proof -
  have m1: "Run sim_env [''git'', ''fetch'', ''-q''] (world (start repo0)) = (None, repo0)"
    by (simp add: sim_simps)
  have m2: "CombinedOutput sim_env [''git'', ''branch''] repo0 = ((''* master\<newline>'', None), repo0)"
    by (simp add: sim_simps)
  have m3: "isOnMaster_loop (Split ''* master\<newline>'' CHR ''\<newline>'')"
    by simp
  have m4: "Run sim_env [''git'', ''pull'', ''-q'', ''--ff-only''] repo0 = (None, repo0)"
    by (simp add: sim_simps)
  have f1: "Run sim_env [''git'', ''fetch'', ''-q''] (world (start on_feature)) = (None, on_feature)"
    by (simp add: sim_simps)
  have f2: "CombinedOutput sim_env [''git'', ''branch''] on_feature
              = ((''  master\<newline>* feat\<newline>'', None), on_feature)"
    by (simp add: sim_simps)
  have f3: "\<not> isOnMaster_loop (Split ''  master\<newline>* feat\<newline>'' CHR ''\<newline>'')"
    by simp
  have f4: "Run sim_env [''git'', ''rebase'', ''origin/master''] on_feature = (None, on_feature)"
    by (simp add: sim_simps)
  have b1: "Run sim_env [''git'', ''fetch'', ''-q'']
              (world (start (repo0\<lparr>broken := [[''git'', ''fetch'', ''-q'']]\<rparr>)))
            = (Some (Failure ''exit status 1''), repo0\<lparr>broken := [[''git'', ''fetch'', ''-q'']]\<rparr>)"
    by (simp add: sim_simps)
  have q1: "Run sim_env [''git'', ''fetch'', ''-q'']
              (world (start (repo0\<lparr>broken := [[''git'', ''branch'']]\<rparr>)))
            = (None, repo0\<lparr>broken := [[''git'', ''branch'']]\<rparr>)"
    by (simp add: sim_simps)
  have q2: "CombinedOutput sim_env [''git'', ''branch''] (repo0\<lparr>broken := [[''git'', ''branch'']]\<rparr>)
            = ((''fatal: index file corrupt\<newline>'', Some (Failure ''exit status 128'')),
               repo0\<lparr>broken := [[''git'', ''branch'']]\<rparr>)"
    by (simp add: sim_simps)
  note t = sync_fetch_then_pull_or_rebase [where E = sim_env and v = False]
  have a: "calls (snd (sync sim_env False (start repo0))) =
     [([''git'', ''fetch'', ''-q''], True), ([''git'', ''branch''], True),
      ([''git'', ''pull'', ''-q'', ''--ff-only''], True)]
   \<and> fst (sync sim_env False (start repo0)) = Ret ()"
    using t [where s = "start repo0"] m1 m2 m3 m4 by (simp add: start_def)
  have b: "calls (snd (sync sim_env False (start on_feature))) =
     [([''git'', ''fetch'', ''-q''], True), ([''git'', ''branch''], True),
      ([''git'', ''rebase'', ''origin/master''], True)]
   \<and> fst (sync sim_env False (start on_feature)) = Ret ()"
    using t [where s = "start on_feature"] f1 f2 f3 f4 by (simp add: start_def)
  have c: "calls (snd (sync sim_env False (start (repo0\<lparr>broken := [[''git'', ''fetch'', ''-q'']]\<rparr>))))
       = [([''git'', ''fetch'', ''-q''], False)]"
    using t [where s = "start (repo0\<lparr>broken := [[''git'', ''fetch'', ''-q'']]\<rparr>)"] b1
    by (simp add: start_def)
  have d: "calls (snd (sync sim_env False (start (repo0\<lparr>broken := [[''git'', ''branch'']]\<rparr>))))
       = [([''git'', ''fetch'', ''-q''], True), ([''git'', ''branch''], False)]"
    using t [where s = "start (repo0\<lparr>broken := [[''git'', ''branch'']]\<rparr>)"] q1 q2
    by (simp add: start_def)
  show ?thesis using a b c d by simp
qed

subsection \<open>Installing the hook\<close>

text \<open>
  C7. \<^verbatim>\<open>installHook\<close> leaves an existing hook file alone: when the file is there
  it returns at once, writes nothing and changes nothing, so a second call after a first
  one that left the file in place never overwrites it. When the file is reported as not
  existing, it writes the template to the hook path with permission \<^verbatim>\<open>0700\<close>, which
  gives the owner, and nobody else, the right to execute, and ends the process only
  when that write fails. When the check fails for any other reason the process ends with
  status 1 and nothing is written.
\<close>

theorem installHook_never_overwrites:
  "(Stat E (hookFile E) (world s) = None \<longrightarrow> installHook E v s = (Ret (), s))
   \<and> (\<forall>e r w'.
        Stat E (hookFile E) (world s) = Some e \<and> IsNotExist e
        \<and> WriteFile E (hookFile E) (commitMsgHook E) perm_0700 (world s) = (r, w')
        \<longrightarrow> writes (snd (installHook E v s))
              = writes s @ [(hookFile E, commitMsgHook E, perm_0700)]
          \<and> world (snd (installHook E v s)) = w'
          \<and> fst (installHook E v s) = (case r of None \<Rightarrow> Ret () | Some _ \<Rightarrow> Exit 1))
   \<and> (\<forall>e.
        Stat E (hookFile E) (world s) = Some e \<and> \<not> IsNotExist e
        \<longrightarrow> installHook E v s =
              (Exit 1, s\<lparr>stderr := stderr s @ ''checking for hook file: '' @ Error e @ nl\<rparr>))
   \<and> perm_0700 div 64 mod 8 = 7 \<and> perm_0700 mod 64 = 0"
  by (auto simp: installHook_def andThen_def os_Stat_def ret_def dief_eq verbosef_eq
      ioutil_WriteFile_def perm_0700_def split: option.splits)

theorem installHook_never_overwrites_witness:
  "installHook sim_env False (start repo0) = (Ret (), start repo0)
   \<and> writes (snd (installHook sim_env False (start no_hook)))
       = [(''.git/hooks/commit-msg'', ''#!/bin/sh\<newline>'', 448)]
   \<and> world (snd (installHook sim_env False (start no_hook))) = repo0
   \<and> fst (installHook sim_env False (start no_hook)) = Ret ()
   \<and> installHook sim_env False (start hook_unreadable) =
       (Exit 1,
        (start hook_unreadable)
          \<lparr>stderr := ''checking for hook file: ''
                      @ ''stat .git/hooks/commit-msg: permission denied\<newline>''\<rparr>)"
proof -
  have hf: "hookFile sim_env = ''.git/hooks/commit-msg''"
    by (simp add: hookFile_def FromSlash_def sim_env_def)
  have cm: "commitMsgHook sim_env = ''#!/bin/sh\<newline>''"
    by (simp add: sim_env_def nl_def)
  have pm: "perm_0700 = 448"
    by (simp add: perm_0700_def)
  have a: "Stat sim_env (hookFile sim_env) (world (start repo0)) = None"
    by (simp add: hf) (simp add: sim_simps)
  have b: "Stat sim_env (hookFile sim_env) (world (start no_hook))
             = Some (NotExist ''stat .git/hooks/commit-msg: no such file or directory'')
           \<and> IsNotExist (NotExist ''stat .git/hooks/commit-msg: no such file or directory'')
           \<and> WriteFile sim_env (hookFile sim_env) (commitMsgHook sim_env) perm_0700
               (world (start no_hook)) = (None, repo0)"
    by (simp add: hf) (simp add: sim_simps)
  have c: "Stat sim_env (hookFile sim_env) (world (start hook_unreadable))
             = Some (Failure ''stat .git/hooks/commit-msg: permission denied'')
           \<and> \<not> IsNotExist (Failure ''stat .git/hooks/commit-msg: permission denied'')"
    by (simp add: hf) (simp add: sim_simps)
  note t = installHook_never_overwrites [where E = sim_env and v = False]
  have r1: "installHook sim_env False (start repo0) = (Ret (), start repo0)"
    using t [where s = "start repo0"] a by blast
  have "writes (snd (installHook sim_env False (start no_hook)))
              = writes (start no_hook) @ [(hookFile sim_env, commitMsgHook sim_env, perm_0700)]
            \<and> world (snd (installHook sim_env False (start no_hook))) = repo0
            \<and> fst (installHook sim_env False (start no_hook))
                = (case None of None \<Rightarrow> Ret () | Some (_ :: os_error) \<Rightarrow> Exit 1)"
    using t [where s = "start no_hook"] b by blast
  then have r2: "writes (snd (installHook sim_env False (start no_hook)))
              = [(''.git/hooks/commit-msg'', ''#!/bin/sh\<newline>'', 448)]
            \<and> world (snd (installHook sim_env False (start no_hook))) = repo0
            \<and> fst (installHook sim_env False (start no_hook)) = Ret ()"
    by (simp add: hf cm pm start_def)
  have "installHook sim_env False (start hook_unreadable) =
       (Exit 1,
        (start hook_unreadable)
          \<lparr>stderr := stderr (start hook_unreadable) @ ''checking for hook file: ''
                      @ Error (Failure ''stat .git/hooks/commit-msg: permission denied'') @ nl\<rparr>)"
    using t [where s = "start hook_unreadable"] c by blast
  then have r3: "installHook sim_env False (start hook_unreadable) =
       (Exit 1,
        (start hook_unreadable)
          \<lparr>stderr := ''checking for hook file: ''
                      @ ''stat .git/hooks/commit-msg: permission denied\<newline>''\<rparr>)"
    by (simp add: start_def nl_def)
  show ?thesis using r1 r2 r3 by simp
qed

subsection \<open>Failures of git\<close>










subsection \<open>Start-up spawns nothing\<close>

lemma goToRepoRoot_loop_frame:
  assumes "goToRepoRoot_loop E p s = Some y"
  shows "calls (snd y) = calls s \<and> writes (snd y) = writes s \<and> stdout (snd y) = stdout s
     \<and> (fst y = Exit 1 \<or> (fst y = Ret () \<and> stderr (snd y) = stderr s))"
proof (rule goToRepoRoot_loop.raw_induct
    [where P = "\<lambda>E p s y. calls (snd y) = calls s \<and> writes (snd y) = writes s
        \<and> stdout (snd y) = stdout s
        \<and> (fst y = Exit 1 \<or> (fst y = Ret () \<and> stderr (snd y) = stderr s))", OF _ assms])
  fix loop :: "'a env \<Rightarrow> string \<Rightarrow> 'a proc \<Rightarrow> (unit res \<times> 'a proc) option"
  fix E p s y
  assume IH: "\<And>E p s y. loop E p s = Some y \<Longrightarrow>
     calls (snd y) = calls s \<and> writes (snd y) = writes s \<and> stdout (snd y) = stdout s
     \<and> (fst y = Exit 1 \<or> (fst y = Ret () \<and> stderr (snd y) = stderr s))"
  assume body: "(case Stat E ''.git'' (world s) of
        None \<Rightarrow> Some (Ret (), s)
      | Some _ \<Rightarrow>
          (case Chdir E ''..'' (world s) of
             (Some e, w1) \<Rightarrow>
               Some (dief (''could not chdir: '' @ Error e @ nl) (s\<lparr>world := w1\<rparr>))
           | (None, w1) \<Rightarrow>
               (case Getwd E w1 of
                  Inl e \<Rightarrow>
                    Some (dief (''could not get current directory: '' @ Error e @ nl)
                            (s\<lparr>world := w1\<rparr>))
                | Inr currentDir \<Rightarrow>
                    if currentDir = p
                    then Some (dief (''Git root not found. Run from within the Git tree please.''
                                     @ nl) (s\<lparr>world := w1\<rparr>))
                    else loop E currentDir (s\<lparr>world := w1\<rparr>)))) = Some y"
  show "calls (snd y) = calls s \<and> writes (snd y) = writes s \<and> stdout (snd y) = stdout s
     \<and> (fst y = Exit 1 \<or> (fst y = Ret () \<and> stderr (snd y) = stderr s))"
    using body
    by (auto simp: dief_eq dest!: IH split: option.splits prod.splits sum.splits if_splits)
qed

lemma goToRepoRoot_frame:
  assumes "goToRepoRoot E s = Some y"
  shows "calls (snd y) = calls s \<and> writes (snd y) = writes s \<and> stdout (snd y) = stdout s
         \<and> (fst y = Exit 1 \<or> (fst y = Ret () \<and> stderr (snd y) = stderr s))"
proof (cases "Getwd E (world s)")
  case (Inl e)
  then show ?thesis using assms by (auto simp: goToRepoRoot_def dief_eq)
next
  case (Inr p)
  then have "goToRepoRoot_loop E p s = Some y"
    using assms by (simp add: goToRepoRoot_def)
  then show ?thesis by (rule goToRepoRoot_loop_frame)
qed

lemma installHook_calls:
  "installHook E v s = (r, s') \<Longrightarrow> calls s' = calls s \<and> (r = Exit 1 \<or> r = Ret ())"
  by (auto simp: installHook_def andThen_def os_Stat_def ret_def dief_eq verbosef_eq
      ioutil_WriteFile_def split: option.splits prod.splits if_splits)

lemma flag_Usage_eq: "flag_Usage prog s = (Exit 2, s\<lparr>stderr := stderr s @ usage prog\<rparr>)"
  by (simp add: flag_Usage_def andThen_def Fprint_Stderr_def os_Exit_def)

lemma main_started:
  assumes "goToRepoRoot E s = Some (Ret (), s1)" and "installHook E v s1 = (Ret (), s2)"
  shows "main E prog (Flags v args) s = Some (dispatch E prog v args s2)"
  using assms by (simp add: main_def andThen_def)

subsection \<open>The command line\<close>

text \<open>
  C8, as the code has it. \<^verbatim>\<open>main\<close> looks for the repository root and installs
  the hook before it looks at the command. Once both have returned, a command name that
  is none of the known ones, or no command name at all, prints the usage text on
  standard error and the process exits with status 2, and the command \<^verbatim>\<open>help\<close>
  prints the long usage text on standard output and the process ends with status 0.
  When one of the two start-up steps fails, the process exits with status 1 whatever the
  command is, and the command name is not looked at.
\<close>

theorem main_usage_and_help:
  "(\<forall>s1 s2.
      goToRepoRoot E s = Some (Ret (), s1) \<and> installHook E v s1 = (Ret (), s2)
      \<longrightarrow> (Arg args 0 \<notin> set [''help'', ''create'', ''cr'', ''commit'', ''co'', ''diff'', ''d'',
                                 ''upload'', ''u'', ''sync'', ''s'', ''pending'', ''p'']
            \<longrightarrow> main E prog (Flags v args) s
                  = Some (Exit 2, s2\<lparr>stderr := stderr s2 @ usage prog\<rparr>))
        \<and> main E prog (Flags v []) s = Some (Exit 2, s2\<lparr>stderr := stderr s2 @ usage prog\<rparr>)
        \<and> (Arg args 0 = ''help''
            \<longrightarrow> main E prog (Flags v args) s
                  = Some (Ret (), s2\<lparr>stdout := stdout s2 @ help_text prog\<rparr>)))
   \<and> (\<forall>c s1.
      goToRepoRoot E s = Some (Exit c, s1)
      \<longrightarrow> main E prog (Flags v args) s = Some (Exit 1, s1))
   \<and> (\<forall>s1 c s2.
      goToRepoRoot E s = Some (Ret (), s1) \<and> installHook E v s1 = (Exit c, s2)
      \<longrightarrow> main E prog (Flags v args) s = Some (Exit 1, s2))
   \<and> exit_status (Exit 2) = 2 \<and> exit_status (Ret ()) = 0 \<and> exit_status (Exit 1) = 1"
proof -
  have ok: "(Arg args 0 \<notin> set [''help'', ''create'', ''cr'', ''commit'', ''co'', ''diff'', ''d'',
                                 ''upload'', ''u'', ''sync'', ''s'', ''pending'', ''p'']
            \<longrightarrow> main E prog (Flags v args) s
                  = Some (Exit 2, s2\<lparr>stderr := stderr s2 @ usage prog\<rparr>))
        \<and> main E prog (Flags v []) s = Some (Exit 2, s2\<lparr>stderr := stderr s2 @ usage prog\<rparr>)
        \<and> (Arg args 0 = ''help''
            \<longrightarrow> main E prog (Flags v args) s
                  = Some (Ret (), s2\<lparr>stdout := stdout s2 @ help_text prog\<rparr>))"
    if "goToRepoRoot E s = Some (Ret (), s1)" and "installHook E v s1 = (Ret (), s2)" for s1 s2
    by (simp add: main_started [OF that] dispatch_def flag_Usage_eq Fprint_Stdout_def Arg_def)
  have root: "main E prog (Flags v args) s = Some (Exit 1, s1)"
    if g: "goToRepoRoot E s = Some (Exit c, s1)" for c s1
  proof -
    have "c = 1" using goToRepoRoot_frame [OF g] by simp
    then show ?thesis using g by (simp add: main_def)
  qed
  have hook: "main E prog (Flags v args) s = Some (Exit 1, s2)"
    if g: "goToRepoRoot E s = Some (Ret (), s1)" and i: "installHook E v s1 = (Exit c, s2)"
    for s1 c s2
  proof -
    have "c = 1" using installHook_calls [OF i] by simp
    then show ?thesis using g i by (simp add: main_def andThen_def)
  qed
  show ?thesis
    using ok root hook by simp
qed

theorem main_usage_and_help_witness:
  "main sim_env ''review'' (Flags False [''frobnicate'']) (start repo0)
     = Some (Exit 2, (start repo0)\<lparr>stderr := usage ''review''\<rparr>)
   \<and> main sim_env ''review'' (Flags False []) (start repo0)
     = Some (Exit 2, (start repo0)\<lparr>stderr := usage ''review''\<rparr>)
   \<and> main sim_env ''review'' (Flags False [''help'']) (start repo0)
     = Some (Ret (), (start repo0)\<lparr>stdout := help_text ''review''\<rparr>)
   \<and> main sim_env ''review'' (Flags False [''help'']) (start outside_tree)
     = Some (Exit 1,
             (start (outside_tree\<lparr>dir := []\<rparr>))
               \<lparr>stderr := ''Git root not found. Run from within the Git tree please.\<newline>''\<rparr>)
   \<and> main sim_env ''review'' (Flags False [''help'']) (start hook_unreadable)
     = Some (Exit 1,
             (start hook_unreadable)
               \<lparr>stderr := ''checking for hook file: ''
                           @ ''stat .git/hooks/commit-msg: permission denied\<newline>''\<rparr>)"
proof -
  have g: "goToRepoRoot sim_env (start repo0) = Some (Ret (), start repo0)"
    by code_simp
  have i: "installHook sim_env False (start repo0) = (Ret (), start repo0)"
    by code_simp
  have a: "Arg [''frobnicate''] 0 \<notin> set [''help'', ''create'', ''cr'', ''commit'', ''co'', ''diff'',
             ''d'', ''upload'', ''u'', ''sync'', ''s'', ''pending'', ''p'']"
    by (simp add: Arg_def)
  have h: "Arg [''help''] 0 = ''help''"
    by (simp add: Arg_def)
  have o: "goToRepoRoot sim_env (start outside_tree)
             = Some (Exit 1,
                     (start (outside_tree\<lparr>dir := []\<rparr>))
                       \<lparr>stderr := ''Git root not found. Run from within the Git tree please.\<newline>''\<rparr>)"
    by code_simp
  have u: "goToRepoRoot sim_env (start hook_unreadable) = Some (Ret (), start hook_unreadable)"
    by code_simp
  have u': "installHook sim_env False (start hook_unreadable)
              = (Exit 1,
                 (start hook_unreadable)
                   \<lparr>stderr := ''checking for hook file: ''
                               @ ''stat .git/hooks/commit-msg: permission denied\<newline>''\<rparr>)"
    by code_simp
  note t = main_usage_and_help [where E = sim_env and v = False and prog = "''review''"]
  have r1: "main sim_env ''review'' (Flags False [''frobnicate'']) (start repo0)
     = Some (Exit 2, (start repo0)\<lparr>stderr := stderr (start repo0) @ usage ''review''\<rparr>)
   \<and> main sim_env ''review'' (Flags False []) (start repo0)
     = Some (Exit 2, (start repo0)\<lparr>stderr := stderr (start repo0) @ usage ''review''\<rparr>)"
    using t [where s = "start repo0" and args = "[''frobnicate'']"] g i a by blast
  have r2: "main sim_env ''review'' (Flags False [''help'']) (start repo0)
     = Some (Ret (), (start repo0)\<lparr>stdout := stdout (start repo0) @ help_text ''review''\<rparr>)"
    using t [where s = "start repo0" and args = "[''help'']"] g i h by blast
  have r3: "main sim_env ''review'' (Flags False [''help'']) (start outside_tree)
     = Some (Exit 1,
             (start (outside_tree\<lparr>dir := []\<rparr>))
               \<lparr>stderr := ''Git root not found. Run from within the Git tree please.\<newline>''\<rparr>)"
    using t [where s = "start outside_tree" and args = "[''help'']"] o by blast
  have r4: "main sim_env ''review'' (Flags False [''help'']) (start hook_unreadable)
     = Some (Exit 1,
             (start hook_unreadable)
               \<lparr>stderr := ''checking for hook file: ''
                           @ ''stat .git/hooks/commit-msg: permission denied\<newline>''\<rparr>)"
    using t [where s = "start hook_unreadable" and args = "[''help'']"] u u' by blast
  show ?thesis
    using r1 r2 r3 r4 by (simp add: start_def)
qed

text \<open>
  Outside every work tree the search for the root fails first: \<^verbatim>\<open>help\<close> prints
  no help and an unknown command prints no usage; both exit with status 1.
\<close>

theorem help_outside_tree_exits_1:
  "main sim_env ''review'' (Flags False [''help'']) (start outside_tree)
     = Some (Exit 1,
             (start (outside_tree\<lparr>dir := []\<rparr>))
               \<lparr>stderr := ''Git root not found. Run from within the Git tree please.\<newline>''\<rparr>)
   \<and> main sim_env ''review'' (Flags False [''frobnicate'']) (start outside_tree)
     = Some (Exit 1,
             (start (outside_tree\<lparr>dir := []\<rparr>))
               \<lparr>stderr := ''Git root not found. Run from within the Git tree please.\<newline>''\<rparr>)"
  by code_simp

text \<open>
  C9, as the code has it. \<^verbatim>\<open>create\<close> without a branch name, or with an empty one,
  is a usage error: once the repository root is found and the hook is in place, the
  program prints the usage text and exits with status 2, before the check for staged
  changes and the check of the branch. However such a run ends, it spawns no process at
  all.
\<close>

theorem create_without_name_usage:
  assumes "Arg args 0 = ''create'' \<or> Arg args 0 = ''cr''" and "Arg args 1 = []"
  shows "(\<forall>s1 s2.
            goToRepoRoot E s = Some (Ret (), s1) \<and> installHook E v s1 = (Ret (), s2)
            \<longrightarrow> main E prog (Flags v args) s
                  = Some (Exit 2, s2\<lparr>stderr := stderr s2 @ usage prog\<rparr>))
       \<and> (\<forall>r s'. main E prog (Flags v args) s = Some (r, s') \<longrightarrow> calls s' = calls s)"
proof -
  have d: "dispatch E prog v args t = (Exit 2, t\<lparr>stderr := stderr t @ usage prog\<rparr>)" for t
    using assms by (auto simp: dispatch_def andThen_def flag_Usage_eq)
  have one: "main E prog (Flags v args) s = Some (Exit 2, s2\<lparr>stderr := stderr s2 @ usage prog\<rparr>)"
    if "goToRepoRoot E s = Some (Ret (), s1)" and "installHook E v s1 = (Ret (), s2)" for s1 s2
    using main_started [OF that] d by simp
  have two: "calls s' = calls s" if m: "main E prog (Flags v args) s = Some (r, s')" for r s'
  proof (cases "goToRepoRoot E s")
    case None
    then show ?thesis using m by (simp add: main_def)
  next
    case (Some y)
    obtain r1 s1 where y: "y = (r1, s1)" by (cases y)
    have fr: "calls s1 = calls s"
      using goToRepoRoot_frame [OF Some] y by simp
    show ?thesis
    proof (cases r1)
      case (Exit c)
      then show ?thesis using m Some y fr by (simp add: main_def)
    next
      case (Ret u)
      obtain r2 s2 where i: "installHook E v s1 = (r2, s2)" by (cases "installHook E v s1")
      have "calls s2 = calls s1"
        using installHook_calls [OF i] by simp
      then show ?thesis
        using m Some y fr Ret i d [of s2]
        by (cases r2) (auto simp: main_def andThen_def)
    qed
  qed
  show ?thesis using one two by blast
qed

theorem create_without_name_usage_witness:
  "main sim_env ''review'' (Flags True [''create'']) (start no_hook)
     = Some (Exit 2,
             (start repo0)
               \<lparr>stderr := ''Presubmit hook to add Change-Id to commit messages is missing.\<newline>''
                           @ ''Automatically creating it at .git/hooks/commit-msg.\<newline>''
                           @ usage ''review'',
                writes := [(''.git/hooks/commit-msg'', ''#!/bin/sh\<newline>'', 448)]\<rparr>)
   \<and> calls (start no_hook) = []"
proof -
  have a: "Arg [''create''] 0 = ''create'' \<or> Arg [''create''] 0 = ''cr''"
    by (simp add: Arg_def)
  have b: "Arg [''create''] 1 = []"
    by (simp add: Arg_def)
  have g: "goToRepoRoot sim_env (start no_hook) = Some (Ret (), start no_hook)"
    by code_simp
  have i: "installHook sim_env True (start no_hook) =
            (Ret (),
             (start repo0)
               \<lparr>stderr := ''Presubmit hook to add Change-Id to commit messages is missing.\<newline>''
                           @ ''Automatically creating it at .git/hooks/commit-msg.\<newline>'',
                writes := [(''.git/hooks/commit-msg'', ''#!/bin/sh\<newline>'', 448)]\<rparr>)"
    by code_simp
  show ?thesis
    using create_without_name_usage [OF a b, of sim_env "start no_hook" True "''review''"] g i
    by (simp add: start_def)
qed

text \<open>
  When the hook file cannot be examined, \<^verbatim>\<open>create\<close> without a name exits with
  status 1 and prints no usage.
\<close>

theorem create_without_name_hook_unreadable:
  "main sim_env ''review'' (Flags False [''create'']) (start hook_unreadable)
     = Some (Exit 1,
             (start hook_unreadable)
               \<lparr>stderr := ''checking for hook file: ''
                           @ ''stat .git/hooks/commit-msg: permission denied\<newline>''\<rparr>)"
  by code_simp

end
